theory Spec2Isabelle
  imports Complex_Main
begin

section \<open>Python values and errors\<close>

text \<open>
  The engine works on pandas columns of floating-point numbers. They are modelled as
  exact reals: every arithmetic identity below is one of real arithmetic, and rounding
  is outside the model. Exceptions are values of \<open>py_error\<close>; a function that can
  raise returns \<open>py_error + 'a\<close> with \<open>Inl\<close> for the exception.
\<close>

datatype py_error = KeyError | IndexError | ValueError | TypeError | OverflowError

definition bind_err :: "py_error + 'a \<Rightarrow> ('a \<Rightarrow> py_error + 'b) \<Rightarrow> py_error + 'b" where
  "bind_err m f = (case m of Inl e \<Rightarrow> Inl e | Inr x \<Rightarrow> f x)"

type_synonym settings_dict = "string \<rightharpoonup> real"

text \<open>\<open>self.settings[key]\<close>: a missing key raises KeyError.\<close>

definition getitem :: "settings_dict \<Rightarrow> string \<Rightarrow> py_error + real" where
  "getitem d k = (case d k of None \<Rightarrow> Inl KeyError | Some v \<Rightarrow> Inr v)"

section \<open>Tables\<close>

text \<open>
  A DataFrame is the list of its rows, in index order; the index is the default
  RangeIndex \<open>0 .. n-1\<close> that \<open>read_csv\<close> and the sample data give, so a label is a
  position. Each stage copies its input and adds columns: the row records extend
  one another the same way. \<open>None\<close> is Python's \<open>None\<close>, \<open>[]\<close> the empty frame.
\<close>

record period =
  quarter :: string
  sales_units :: real
  unit_price :: real

record sales_row = period +
  sales_revenue :: real

record collections_row = sales_row +
  collections :: real

record purchases_row = sales_row +
  desired_ending_inventory :: real
  beginning_inventory :: real
  purchases_units :: real
  purchases_cost :: real

record cash_row = collections_row +
  disbursements :: real
  beginning_cash :: real
  ending_cash :: real

record income_row =
  iquarter :: string
  total_revenue :: real
  total_cogs :: real
  gross_profit :: real

text \<open>\<open>df.loc[i, col]\<close> reads row \<open>i\<close>; a label that is not in the index raises KeyError.
  \<open>series.iloc[i]\<close> is positional and raises IndexError.\<close>

definition loc :: "'r list \<Rightarrow> nat \<Rightarrow> py_error + 'r" where
  "loc t i = (if i < length t then Inr (t ! i) else Inl KeyError)"

definition iloc :: "'a list \<Rightarrow> nat \<Rightarrow> py_error + 'a" where
  "iloc xs i = (if i < length xs then Inr (xs ! i) else Inl IndexError)"

text \<open>\<open>df.iterrows()\<close> yields the pairs (label, row) of the frame as it is when the
  loop starts; \<open>for_rows\<close> runs a loop body over them, threading the frame that the body
  updates in place and stopping at the first exception.\<close>

definition iterrows :: "'r list \<Rightarrow> (nat \<times> 'r) list" where
  "iterrows t = zip [0..<length t] t"

fun for_rows :: "(nat \<Rightarrow> 'r \<Rightarrow> 's \<Rightarrow> py_error + 's) \<Rightarrow> (nat \<times> 'r) list \<Rightarrow> 's \<Rightarrow> py_error + 's" where
  "for_rows body [] s = Inr s"
| "for_rows body ((i, row) # rest) s = bind_err (body i row s) (for_rows body rest)"

section \<open>BudgetCalculator\<close>

text \<open>\<open>df.loc[i, col] = v\<close> for a label \<open>i\<close> of the frame: the cell of row \<open>i\<close> is
  overwritten. (A label outside the index would append a row; the loops below only
  write labels of the frame they iterate over.)\<close>

definition set_cell :: "nat \<Rightarrow> ('r \<Rightarrow> 'r) \<Rightarrow> 'r list \<Rightarrow> 'r list" where
  "set_cell i f t = t[i := f (t ! i)]"

subsection \<open>compute_sales_revenue\<close>

definition add_sales_revenue :: "period \<Rightarrow> real \<Rightarrow> sales_row" where
  "add_sales_revenue r v =
     \<lparr>quarter = quarter r, sales_units = sales_units r, unit_price = unit_price r,
      sales_revenue = v\<rparr>"

definition compute_sales_revenue :: "period list option \<Rightarrow> sales_row list" where
  "compute_sales_revenue data =
     (case data of None \<Rightarrow> []
      | Some d \<Rightarrow> if d = [] then []
                  else map (\<lambda>r. add_sales_revenue r (sales_units r * unit_price r)) d)"

subsection \<open>compute_collections\<close>

definition add_collections :: "sales_row \<Rightarrow> real \<Rightarrow> collections_row" where
  "add_collections r v =
     \<lparr>quarter = quarter r, sales_units = sales_units r, unit_price = unit_price r,
      sales_revenue = sales_revenue r, collections = v\<rparr>"

definition collections_body ::
  "settings_dict \<Rightarrow> nat \<Rightarrow> collections_row \<Rightarrow> collections_row list
     \<Rightarrow> py_error + collections_row list" where
  "collections_body st i row t =
     (let current_revenue = sales_revenue row in
      bind_err (loc t i) (\<lambda>r.
      bind_err (getitem st ''sales_collection_current'') (\<lambda>cc.
      let t1 = set_cell i (\<lambda>x. x\<lparr>collections := collections r + current_revenue * cc\<rparr>) t in
      if i > 0 then
        bind_err (loc t1 (i - 1)) (\<lambda>p.
        let prev_revenue = sales_revenue p in
        bind_err (loc t1 i) (\<lambda>r1.
        bind_err (getitem st ''sales_collection_next'') (\<lambda>cn.
        Inr (set_cell i (\<lambda>x. x\<lparr>collections := collections r1 + prev_revenue * cn\<rparr>) t1))))
      else Inr t1)))"

definition compute_collections ::
  "settings_dict \<Rightarrow> sales_row list option \<Rightarrow> py_error + collections_row list" where
  "compute_collections st sales_data =
     (case sales_data of None \<Rightarrow> Inr []
      | Some sd \<Rightarrow>
          if sd = [] then Inr []
          else (let t0 = map (\<lambda>r. add_collections r 0) sd
                in for_rows (collections_body st) (iterrows t0) t0))"

subsection \<open>compute_purchases\<close>

definition add_purchases :: "sales_row \<Rightarrow> purchases_row" where
  "add_purchases r =
     \<lparr>quarter = quarter r, sales_units = sales_units r, unit_price = unit_price r,
      sales_revenue = sales_revenue r, desired_ending_inventory = 0,
      beginning_inventory = 0, purchases_units = 0, purchases_cost = 0\<rparr>"

definition purchases_body ::
  "settings_dict \<Rightarrow> real list \<Rightarrow> nat \<Rightarrow> purchases_row \<Rightarrow> purchases_row list
     \<Rightarrow> py_error + purchases_row list" where
  "purchases_body st cost_per_unit i row t =
     bind_err
       (if int i < int (length t) - 1 then
          bind_err (loc t (i + 1)) (\<lambda>nx.
          let next_q_sales = sales_units nx in
          bind_err (getitem st ''ending_inventory_pct'') (\<lambda>pct.
          Inr (set_cell i (\<lambda>x. x\<lparr>desired_ending_inventory := next_q_sales * pct\<rparr>) t)))
        else Inr t) (\<lambda>t1.
     bind_err
       (if i > 0 then
          bind_err (loc t1 (i - 1)) (\<lambda>p.
          Inr (set_cell i (\<lambda>x. x\<lparr>beginning_inventory := desired_ending_inventory p\<rparr>) t1))
        else Inr t1) (\<lambda>t2.
     bind_err (loc t2 i) (\<lambda>c.
     let t3 = set_cell i (\<lambda>x. x\<lparr>purchases_units :=
                sales_units row + desired_ending_inventory c - beginning_inventory c\<rparr>) t2 in
     bind_err (loc t3 i) (\<lambda>c3.
     bind_err (iloc cost_per_unit i) (\<lambda>cpu.
     Inr (set_cell i (\<lambda>x. x\<lparr>purchases_cost := purchases_units c3 * cpu\<rparr>) t3))))))"

definition compute_purchases ::
  "settings_dict \<Rightarrow> sales_row list option \<Rightarrow> py_error + purchases_row list" where
  "compute_purchases st sales_data =
     (case sales_data of None \<Rightarrow> Inr []
      | Some sd \<Rightarrow>
          if sd = [] then Inr []
          else (let t0 = map add_purchases sd;
                    cost_per_unit = map (\<lambda>r. unit_price r * 0.6) t0
                in for_rows (purchases_body st cost_per_unit) (iterrows t0) t0))"

subsection \<open>compute_cash_budget\<close>

definition add_cash :: "collections_row \<Rightarrow> real \<Rightarrow> real \<Rightarrow> real \<Rightarrow> cash_row" where
  "add_cash r d b e =
     \<lparr>quarter = quarter r, sales_units = sales_units r, unit_price = unit_price r,
      sales_revenue = sales_revenue r, collections = collections r,
      disbursements = d, beginning_cash = b, ending_cash = e\<rparr>"

definition cash_body ::
  "settings_dict \<Rightarrow> purchases_row list \<Rightarrow> nat \<Rightarrow> cash_row \<Rightarrow> cash_row list
     \<Rightarrow> py_error + cash_row list" where
  "cash_body st purchases i row t =
     bind_err (loc purchases i) (\<lambda>pr.
     let current_purchases = purchases_cost pr in
     bind_err (loc t i) (\<lambda>r.
     bind_err (getitem st ''purchases_payment_current'') (\<lambda>pc.
     let t1 = set_cell i (\<lambda>x. x\<lparr>disbursements := disbursements r + current_purchases * pc\<rparr>) t in
     bind_err
       (if i > 0 then
          bind_err (loc purchases (i - 1)) (\<lambda>pp.
          let prev_purchases = purchases_cost pp in
          bind_err (loc t1 i) (\<lambda>r1.
          bind_err (getitem st ''purchases_payment_next'') (\<lambda>pn.
          Inr (set_cell i (\<lambda>x. x\<lparr>disbursements := disbursements r1 + prev_purchases * pn\<rparr>) t1))))
        else Inr t1) (\<lambda>t2.
     if i = 0 then
       bind_err (getitem st ''beginning_cash'') (\<lambda>bc.
       bind_err (loc t2 i) (\<lambda>r2.
       Inr (set_cell i (\<lambda>x. x\<lparr>ending_cash := bc + collections row - disbursements r2\<rparr>) t2)))
     else
       bind_err (loc t2 (i - 1)) (\<lambda>pv.
       bind_err (loc t2 i) (\<lambda>r2.
       Inr (set_cell i (\<lambda>x. x\<lparr>ending_cash :=
              ending_cash pv + collections row - disbursements r2\<rparr>) t2)))))))"

definition compute_cash_budget ::
  "settings_dict \<Rightarrow> collections_row list option \<Rightarrow> purchases_row list option
     \<Rightarrow> py_error + cash_row list" where
  "compute_cash_budget st collections_df purchases =
     (case collections_df of None \<Rightarrow> Inr []
      | Some c \<Rightarrow>
          if c = [] then Inr []
          else (case purchases of None \<Rightarrow> Inr []
                | Some p \<Rightarrow>
                    if p = [] then Inr []
                    else bind_err (getitem st ''beginning_cash'') (\<lambda>bc.
                         let t0 = map (\<lambda>r. add_cash r 0 bc 0) c
                         in for_rows (cash_body st p) (iterrows t0) t0)))"

subsection \<open>compute_income_statement\<close>

definition income_of :: "sales_row \<Rightarrow> income_row" where
  "income_of r =
     (let total_revenue = sales_units r * unit_price r;
          cost_per_unit = unit_price r * 0.6;
          total_cogs = sales_units r * cost_per_unit
      in \<lparr>iquarter = quarter r, total_revenue = total_revenue, total_cogs = total_cogs,
          gross_profit = total_revenue - total_cogs\<rparr>)"

definition compute_income_statement :: "sales_row list option \<Rightarrow> income_row list" where
  "compute_income_statement sales_data =
     (case sales_data of None \<Rightarrow> []
      | Some sd \<Rightarrow> if sd = [] then [] else map income_of sd)"

subsection \<open>compute_balance_sheet\<close>

text \<open>
  The balance sheet takes its index from \<open>sales_data\<close>. A column assigned from another
  frame is aligned on the index: a label that the other frame lacks gives a missing value
  (NaN), written \<open>None\<close>, and arithmetic on a missing value is missing.
\<close>

record balance_row =
  bquarter :: string
  cash :: "real option"
  inventory :: "real option"
  receivables :: real
  total_assets :: "real option"
  external_financing :: "real option"
  equity :: "real option"
  liabilities_equity :: "real option"

definition aligned :: "'r list \<Rightarrow> ('r \<Rightarrow> real) \<Rightarrow> nat \<Rightarrow> real option" where
  "aligned t col i = (if i < length t then Some (col (t ! i)) else None)"

definition nan_add :: "real option \<Rightarrow> real option \<Rightarrow> real option" where
  "nan_add a b = (case a of None \<Rightarrow> None
                  | Some x \<Rightarrow> (case b of None \<Rightarrow> None | Some y \<Rightarrow> Some (x + y)))"

definition nan_sub :: "real option \<Rightarrow> real option \<Rightarrow> real option" where
  "nan_sub a b = (case a of None \<Rightarrow> None
                  | Some x \<Rightarrow> (case b of None \<Rightarrow> None | Some y \<Rightarrow> Some (x - y)))"

definition nan_mul :: "real option \<Rightarrow> real option \<Rightarrow> real option" where
  "nan_mul a b = (case a of None \<Rightarrow> None
                  | Some x \<Rightarrow> (case b of None \<Rightarrow> None | Some y \<Rightarrow> Some (x * y)))"

definition receivables_body ::
  "settings_dict \<Rightarrow> sales_row list \<Rightarrow> nat \<Rightarrow> sales_row \<Rightarrow> real list \<Rightarrow> py_error + real list" where
  "receivables_body st sales_data i row receivables_list =
     (if i = 0 then
        bind_err (getitem st ''sales_collection_current'') (\<lambda>cc.
        Inr (receivables_list @ [sales_revenue row * (1 - cc)]))
      else
        bind_err (iloc receivables_list (i - 1)) (\<lambda>prev_uncollected.
        bind_err (getitem st ''sales_collection_current'') (\<lambda>cc.
        let current_uncollected = sales_revenue row * (1 - cc) in
        bind_err (loc sales_data (i - 1)) (\<lambda>p.
        bind_err (getitem st ''sales_collection_next'') (\<lambda>cn.
        Inr (receivables_list @ [prev_uncollected + current_uncollected - sales_revenue p * cn]))))))"

definition balance_row_at ::
  "cash_row list \<Rightarrow> purchases_row list \<Rightarrow> sales_row list \<Rightarrow> real list \<Rightarrow> real \<Rightarrow> nat
     \<Rightarrow> balance_row" where
  "balance_row_at cash_budget purchases sales_data receivables_list ratio i =
     (let cash = aligned cash_budget ending_cash i;
          inventory_value = nan_mul (aligned purchases desired_ending_inventory i)
                                    (nan_mul (aligned sales_data unit_price i) (Some 0.6));
          total_assets = nan_add (nan_add cash inventory_value) (Some (receivables_list ! i));
          external_financing = nan_mul total_assets (Some ratio);
          equity = nan_sub total_assets external_financing
      in \<lparr>bquarter = quarter (sales_data ! i), cash = cash, inventory = inventory_value,
          receivables = receivables_list ! i, total_assets = total_assets,
          external_financing = external_financing, equity = equity,
          liabilities_equity = nan_add external_financing equity\<rparr>)"

text \<open>Assigning the Python list \<open>receivables\<close> as a column raises ValueError unless it
  has one entry for each row.\<close>

definition compute_balance_sheet ::
  "settings_dict \<Rightarrow> cash_row list option \<Rightarrow> purchases_row list option \<Rightarrow> sales_row list option
     \<Rightarrow> py_error + balance_row list" where
  "compute_balance_sheet st cash_budget purchases sales_data =
     (case cash_budget of None \<Rightarrow> Inr []
      | Some cb \<Rightarrow>
          if cb = [] then Inr []
          else (case purchases of None \<Rightarrow> Inr []
                | Some p \<Rightarrow>
                    if p = [] then Inr []
                    else (case sales_data of None \<Rightarrow> Inr []
                          | Some sd \<Rightarrow>
                              if sd = [] then Inr []
                              else
                                bind_err (for_rows (receivables_body st sd) (iterrows sd) [])
                                  (\<lambda>receivables_list.
                                if length receivables_list \<noteq> length sd then Inl ValueError
                                else
                                  bind_err (getitem st ''external_financing_ratio'') (\<lambda>ratio.
                                  Inr (map (balance_row_at cb p sd receivables_list ratio)
                                         [0..<length sd]))))))"

subsection \<open>The stage sequence\<close>

text \<open>
  \<open>MainWindow.save_all_reports\<close> runs the six stages in this order on the window's
  table, each stage on the results of the earlier ones.
\<close>

record BudgetCalculator =
  calc_settings :: settings_dict

record reports =
  sales_data_out :: "sales_row list"
  collections_out :: "collections_row list"
  purchases_out :: "purchases_row list"
  cash_budget_out :: "cash_row list"
  income_stmt_out :: "income_row list"
  balance_sheet_out :: "balance_row list"

definition run_stages :: "BudgetCalculator \<Rightarrow> period list option \<Rightarrow> py_error + reports" where
  "run_stages calc d =
     (let st = calc_settings calc;
          sales_data = compute_sales_revenue d in
      bind_err (compute_collections st (Some sales_data)) (\<lambda>collections_df.
      bind_err (compute_purchases st (Some sales_data)) (\<lambda>purchases.
      bind_err (compute_cash_budget st (Some collections_df) (Some purchases)) (\<lambda>cash_budget.
      let income_stmt = compute_income_statement (Some sales_data) in
      bind_err (compute_balance_sheet st (Some cash_budget) (Some purchases) (Some sales_data))
        (\<lambda>balance_sheet.
      Inr \<lparr>sales_data_out = sales_data, collections_out = collections_df,
           purchases_out = purchases, cash_budget_out = cash_budget,
           income_stmt_out = income_stmt, balance_sheet_out = balance_sheet\<rparr>)))))"

section \<open>The stages on an object store\<close>

text \<open>
  A DataFrame is an object: a stage is handed a reference, \<open>copy()\<close> makes a new object,
  and \<open>df.loc[i, col] = v\<close> and \<open>df[col] = v\<close> change the object in place. The store
  is the list of all objects made so far; a reference is a position in it, and a new
  object goes to the end. A frame in the store carries its column set as its
  constructor. \<open>EmptyFrame\<close> is \<open>pd.DataFrame()\<close>; \<open>Unfinished\<close> is a frame between the
  first and the last of the column assignments that build it, whose contents are not
  tracked.
\<close>

datatype frame =
    EmptyFrame
  | Unfinished
  | PeriodFrame "period list"
  | SalesFrame "sales_row list"
  | CollectionsFrame "collections_row list"
  | PurchasesFrame "purchases_row list"
  | CashFrame "cash_row list"
  | IncomeFrame "income_row list"
  | BalanceFrame "balance_row list"

type_synonym ref = nat
type_synonym heap = "frame list"
type_synonym 'a act = "heap \<Rightarrow> ((py_error + 'a) \<times> heap) option"

text \<open>\<open>df.empty\<close>, and the rows of a frame seen with the columns a stage reads. An empty
  frame has no rows whatever its columns; a frame with rows and other columns has no
  such view.\<close>

definition frame_empty :: "frame \<Rightarrow> bool" where
  "frame_empty f =
     (case f of
        EmptyFrame \<Rightarrow> True
      | Unfinished \<Rightarrow> False
      | PeriodFrame t \<Rightarrow> t = []
      | SalesFrame t \<Rightarrow> t = []
      | CollectionsFrame t \<Rightarrow> t = []
      | PurchasesFrame t \<Rightarrow> t = []
      | CashFrame t \<Rightarrow> t = []
      | IncomeFrame t \<Rightarrow> t = []
      | BalanceFrame t \<Rightarrow> t = [])"

definition period_rows :: "frame \<Rightarrow> period list option" where
  "period_rows f =
     (case f of PeriodFrame t \<Rightarrow> Some t | _ \<Rightarrow> if frame_empty f then Some [] else None)"

definition sales_rows :: "frame \<Rightarrow> sales_row list option" where
  "sales_rows f =
     (case f of SalesFrame t \<Rightarrow> Some t | _ \<Rightarrow> if frame_empty f then Some [] else None)"

definition collections_rows :: "frame \<Rightarrow> collections_row list option" where
  "collections_rows f =
     (case f of CollectionsFrame t \<Rightarrow> Some t | _ \<Rightarrow> if frame_empty f then Some [] else None)"

definition purchases_rows :: "frame \<Rightarrow> purchases_row list option" where
  "purchases_rows f =
     (case f of PurchasesFrame t \<Rightarrow> Some t | _ \<Rightarrow> if frame_empty f then Some [] else None)"

definition cash_rows :: "frame \<Rightarrow> cash_row list option" where
  "cash_rows f =
     (case f of CashFrame t \<Rightarrow> Some t | _ \<Rightarrow> if frame_empty f then Some [] else None)"

definition income_rows :: "frame \<Rightarrow> income_row list option" where
  "income_rows f =
     (case f of IncomeFrame t \<Rightarrow> Some t | _ \<Rightarrow> if frame_empty f then Some [] else None)"

definition balance_rows :: "frame \<Rightarrow> balance_row list option" where
  "balance_rows f =
     (case f of BalanceFrame t \<Rightarrow> Some t | _ \<Rightarrow> if frame_empty f then Some [] else None)"

text \<open>
  A step takes the store and gives the store after it together with a value or the
  exception raised. The result is \<open>None\<close> when the step is handed a reference to no
  object, or a frame with rows that is not of the column set the step reads: such a call
  is outside this model.
\<close>

definition return_act :: "'a \<Rightarrow> 'a act" where
  "return_act x h = Some (Inr x, h)"

definition try_err :: "py_error + 'a \<Rightarrow> 'a act" where
  "try_err m h = Some (m, h)"

definition bind_act :: "'a act \<Rightarrow> ('a \<Rightarrow> 'b act) \<Rightarrow> 'b act" where
  "bind_act m f h =
     (case m h of
        None \<Rightarrow> None
      | Some (Inl e, h') \<Rightarrow> Some (Inl e, h')
      | Some (Inr x, h') \<Rightarrow> f x h')"

text \<open>\<open>pd.DataFrame()\<close> and \<open>df.copy()\<close> make an object; \<open>rows_at\<close> reads one through a
  view and \<open>store_at\<close> overwrites one.\<close>

definition new_object :: "frame \<Rightarrow> ref act" where
  "new_object f h = Some (Inr (length h), h @ [f])"

definition copy_object :: "ref \<Rightarrow> ref act" where
  "copy_object a h = (if a < length h then Some (Inr (length h), h @ [h ! a]) else None)"

definition rows_at :: "(frame \<Rightarrow> 't option) \<Rightarrow> ref \<Rightarrow> 't act" where
  "rows_at view a h =
     (if a < length h
      then (case view (h ! a) of None \<Rightarrow> None | Some t \<Rightarrow> Some (Inr t, h))
      else None)"

definition store_at :: "ref \<Rightarrow> frame \<Rightarrow> unit act" where
  "store_at a f h = (if a < length h then Some (Inr (), h[a := f]) else None)"

text \<open>\<open>df.loc[i, col]\<close> as a read, and as an assignment to a cell of row \<open>i\<close>, on the
  object \<open>a\<close>.\<close>

definition loc_h :: "(frame \<Rightarrow> 'r list option) \<Rightarrow> ref \<Rightarrow> nat \<Rightarrow> 'r act" where
  "loc_h view a i = bind_act (rows_at view a) (\<lambda>t. try_err (loc t i))"

definition set_cell_h ::
  "(frame \<Rightarrow> 'r list option) \<Rightarrow> ('r list \<Rightarrow> frame) \<Rightarrow> ref \<Rightarrow> nat \<Rightarrow> ('r \<Rightarrow> 'r) \<Rightarrow> unit act" where
  "set_cell_h view mk a i f = bind_act (rows_at view a) (\<lambda>t. store_at a (mk (set_cell i f t)))"

fun for_rows_act :: "(nat \<Rightarrow> 'r \<Rightarrow> 's \<Rightarrow> 's act) \<Rightarrow> (nat \<times> 'r) list \<Rightarrow> 's \<Rightarrow> 's act" where
  "for_rows_act body [] s = return_act s"
| "for_rows_act body ((i, row) # rest) s = bind_act (body i row s) (for_rows_act body rest)"

subsection \<open>compute_sales_revenue\<close>

definition compute_sales_revenue_h :: "ref option \<Rightarrow> ref act" where
  "compute_sales_revenue_h d =
     (case d of
        None \<Rightarrow> new_object EmptyFrame
      | Some a \<Rightarrow>
          bind_act (rows_at period_rows a) (\<lambda>rows.
          if rows = [] then new_object EmptyFrame
          else
            bind_act (copy_object a) (\<lambda>c.
            bind_act (rows_at period_rows c) (\<lambda>cp.
            bind_act (store_at c (SalesFrame
                        (map (\<lambda>r. add_sales_revenue r (sales_units r * unit_price r)) cp))) (\<lambda>_.
            return_act c)))))"

subsection \<open>compute_collections\<close>

text \<open>The loop body and the stage, statement by statement as above, with every read and
  write of \<open>collections\<close> going to the object \<open>c\<close> that the name is bound to.\<close>

definition collections_body_h ::
  "settings_dict \<Rightarrow> ref \<Rightarrow> nat \<Rightarrow> collections_row \<Rightarrow> unit \<Rightarrow> unit act" where
  "collections_body_h st c i row u =
     (let current_revenue = sales_revenue row in
      bind_act (loc_h collections_rows c i) (\<lambda>r.
      bind_act (try_err (getitem st ''sales_collection_current'')) (\<lambda>cc.
      bind_act (set_cell_h collections_rows CollectionsFrame c i
                  (\<lambda>x. x\<lparr>collections := collections r + current_revenue * cc\<rparr>)) (\<lambda>_.
      if i > 0 then
        bind_act (loc_h collections_rows c (i - 1)) (\<lambda>p.
        let prev_revenue = sales_revenue p in
        bind_act (loc_h collections_rows c i) (\<lambda>r1.
        bind_act (try_err (getitem st ''sales_collection_next'')) (\<lambda>cn.
        set_cell_h collections_rows CollectionsFrame c i
          (\<lambda>x. x\<lparr>collections := collections r1 + prev_revenue * cn\<rparr>))))
      else return_act ()))))"

definition compute_collections_h :: "settings_dict \<Rightarrow> ref option \<Rightarrow> ref act" where
  "compute_collections_h st sales_data =
     (case sales_data of
        None \<Rightarrow> new_object EmptyFrame
      | Some a \<Rightarrow>
          bind_act (rows_at sales_rows a) (\<lambda>sd.
          if sd = [] then new_object EmptyFrame
          else
            bind_act (copy_object a) (\<lambda>c.
            bind_act (rows_at sales_rows c) (\<lambda>cp.
            bind_act (store_at c (CollectionsFrame (map (\<lambda>r. add_collections r 0) cp))) (\<lambda>_.
            bind_act (rows_at collections_rows c) (\<lambda>t0.
            bind_act (for_rows_act (collections_body_h st c) (iterrows t0) ()) (\<lambda>_.
            return_act c)))))))"

subsection \<open>compute_purchases\<close>

text \<open>Four column assignments turn the copy into a purchases frame; \<open>cost_per_unit\<close> is a
  series of its own, held by the stage alone.\<close>

definition purchases_body_h ::
  "settings_dict \<Rightarrow> real list \<Rightarrow> ref \<Rightarrow> nat \<Rightarrow> purchases_row \<Rightarrow> unit \<Rightarrow> unit act" where
  "purchases_body_h st cost_per_unit c i row u =
     bind_act (rows_at purchases_rows c) (\<lambda>t.
     bind_act
       (if int i < int (length t) - 1 then
          bind_act (loc_h purchases_rows c (i + 1)) (\<lambda>nx.
          let next_q_sales = sales_units nx in
          bind_act (try_err (getitem st ''ending_inventory_pct'')) (\<lambda>pct.
          set_cell_h purchases_rows PurchasesFrame c i
            (\<lambda>x. x\<lparr>desired_ending_inventory := next_q_sales * pct\<rparr>)))
        else return_act ()) (\<lambda>_.
     bind_act
       (if i > 0 then
          bind_act (loc_h purchases_rows c (i - 1)) (\<lambda>p.
          set_cell_h purchases_rows PurchasesFrame c i
            (\<lambda>x. x\<lparr>beginning_inventory := desired_ending_inventory p\<rparr>))
        else return_act ()) (\<lambda>_.
     bind_act (loc_h purchases_rows c i) (\<lambda>cur.
     bind_act (set_cell_h purchases_rows PurchasesFrame c i
                 (\<lambda>x. x\<lparr>purchases_units :=
                    sales_units row + desired_ending_inventory cur - beginning_inventory cur\<rparr>)) (\<lambda>_.
     bind_act (loc_h purchases_rows c i) (\<lambda>cur3.
     bind_act (try_err (iloc cost_per_unit i)) (\<lambda>cpu.
     set_cell_h purchases_rows PurchasesFrame c i
       (\<lambda>x. x\<lparr>purchases_cost := purchases_units cur3 * cpu\<rparr>))))))))"

definition compute_purchases_h :: "settings_dict \<Rightarrow> ref option \<Rightarrow> ref act" where
  "compute_purchases_h st sales_data =
     (case sales_data of
        None \<Rightarrow> new_object EmptyFrame
      | Some a \<Rightarrow>
          bind_act (rows_at sales_rows a) (\<lambda>sd.
          if sd = [] then new_object EmptyFrame
          else
            bind_act (copy_object a) (\<lambda>c.
            bind_act (rows_at sales_rows c) (\<lambda>cp.
            bind_act (store_at c Unfinished) (\<lambda>_.
            bind_act (store_at c Unfinished) (\<lambda>_.
            bind_act (store_at c Unfinished) (\<lambda>_.
            bind_act (store_at c (PurchasesFrame (map add_purchases cp))) (\<lambda>_.
            bind_act (rows_at purchases_rows c) (\<lambda>t1.
            let cost_per_unit = map (\<lambda>r. unit_price r * 0.6) t1 in
            bind_act (rows_at purchases_rows c) (\<lambda>t0.
            bind_act (for_rows_act (purchases_body_h st cost_per_unit c) (iterrows t0) ()) (\<lambda>_.
            return_act c)))))))))))"

subsection \<open>compute_cash_budget\<close>

text \<open>The body reads the \<open>purchases\<close> object anew in every iteration and writes the copy
  of \<open>collections\<close>.\<close>

definition cash_body_h ::
  "settings_dict \<Rightarrow> ref \<Rightarrow> ref \<Rightarrow> nat \<Rightarrow> cash_row \<Rightarrow> unit \<Rightarrow> unit act" where
  "cash_body_h st purchases c i row u =
     bind_act (loc_h purchases_rows purchases i) (\<lambda>pr.
     let current_purchases = purchases_cost pr in
     bind_act (loc_h cash_rows c i) (\<lambda>r.
     bind_act (try_err (getitem st ''purchases_payment_current'')) (\<lambda>pc.
     bind_act (set_cell_h cash_rows CashFrame c i
                 (\<lambda>x. x\<lparr>disbursements := disbursements r + current_purchases * pc\<rparr>)) (\<lambda>_.
     bind_act
       (if i > 0 then
          bind_act (loc_h purchases_rows purchases (i - 1)) (\<lambda>pp.
          let prev_purchases = purchases_cost pp in
          bind_act (loc_h cash_rows c i) (\<lambda>r1.
          bind_act (try_err (getitem st ''purchases_payment_next'')) (\<lambda>pn.
          set_cell_h cash_rows CashFrame c i
            (\<lambda>x. x\<lparr>disbursements := disbursements r1 + prev_purchases * pn\<rparr>))))
        else return_act ()) (\<lambda>_.
     if i = 0 then
       bind_act (try_err (getitem st ''beginning_cash'')) (\<lambda>bc.
       bind_act (loc_h cash_rows c i) (\<lambda>r2.
       set_cell_h cash_rows CashFrame c i
         (\<lambda>x. x\<lparr>ending_cash := bc + collections row - disbursements r2\<rparr>)))
     else
       bind_act (loc_h cash_rows c (i - 1)) (\<lambda>pv.
       bind_act (loc_h cash_rows c i) (\<lambda>r2.
       set_cell_h cash_rows CashFrame c i
         (\<lambda>x. x\<lparr>ending_cash :=
            ending_cash pv + collections row - disbursements r2\<rparr>))))))))"

definition compute_cash_budget_h ::
  "settings_dict \<Rightarrow> ref option \<Rightarrow> ref option \<Rightarrow> ref act" where
  "compute_cash_budget_h st collections_df purchases =
     (case collections_df of
        None \<Rightarrow> new_object EmptyFrame
      | Some ca \<Rightarrow>
          bind_act (rows_at collections_rows ca) (\<lambda>cl.
          if cl = [] then new_object EmptyFrame
          else
            (case purchases of
               None \<Rightarrow> new_object EmptyFrame
             | Some pa \<Rightarrow>
                 bind_act (rows_at purchases_rows pa) (\<lambda>p.
                 if p = [] then new_object EmptyFrame
                 else
                   bind_act (copy_object ca) (\<lambda>c.
                   bind_act (rows_at collections_rows c) (\<lambda>cp.
                   bind_act (store_at c Unfinished) (\<lambda>_.
                   bind_act (try_err (getitem st ''beginning_cash'')) (\<lambda>bc.
                   bind_act (store_at c Unfinished) (\<lambda>_.
                   bind_act (store_at c (CashFrame (map (\<lambda>r. add_cash r 0 bc 0) cp))) (\<lambda>_.
                   bind_act (rows_at cash_rows c) (\<lambda>t0.
                   bind_act (for_rows_act (cash_body_h st pa c) (iterrows t0) ()) (\<lambda>_.
                   return_act c))))))))))))"

subsection \<open>compute_income_statement\<close>

definition compute_income_statement_h :: "ref option \<Rightarrow> ref act" where
  "compute_income_statement_h sales_data =
     (case sales_data of
        None \<Rightarrow> new_object EmptyFrame
      | Some a \<Rightarrow>
          bind_act (rows_at sales_rows a) (\<lambda>sd.
          if sd = [] then new_object EmptyFrame
          else
            bind_act (new_object EmptyFrame) (\<lambda>b.
            bind_act (store_at b Unfinished) (\<lambda>_.
            bind_act (store_at b Unfinished) (\<lambda>_.
            bind_act (store_at b Unfinished) (\<lambda>_.
            bind_act (rows_at sales_rows a) (\<lambda>rows.
            bind_act (store_at b (IncomeFrame (map income_of rows))) (\<lambda>_.
            return_act b))))))))"

subsection \<open>compute_balance_sheet\<close>

text \<open>\<open>receivables\<close> is a Python list local to the stage; the loop appends to it and reads
  the \<open>sales_data\<close> object.\<close>

definition receivables_body_h ::
  "settings_dict \<Rightarrow> ref \<Rightarrow> nat \<Rightarrow> sales_row \<Rightarrow> real list \<Rightarrow> real list act" where
  "receivables_body_h st sales_data i row receivables_list =
     (if i = 0 then
        bind_act (try_err (getitem st ''sales_collection_current'')) (\<lambda>cc.
        return_act (receivables_list @ [sales_revenue row * (1 - cc)]))
      else
        bind_act (try_err (iloc receivables_list (i - 1))) (\<lambda>prev_uncollected.
        bind_act (try_err (getitem st ''sales_collection_current'')) (\<lambda>cc.
        let current_uncollected = sales_revenue row * (1 - cc) in
        bind_act (loc_h sales_rows sales_data (i - 1)) (\<lambda>p.
        bind_act (try_err (getitem st ''sales_collection_next'')) (\<lambda>cn.
        return_act
          (receivables_list @ [prev_uncollected + current_uncollected - sales_revenue p * cn]))))))"

definition compute_balance_sheet_h ::
  "settings_dict \<Rightarrow> ref option \<Rightarrow> ref option \<Rightarrow> ref option \<Rightarrow> ref act" where
  "compute_balance_sheet_h st cash_budget purchases sales_data =
     (case cash_budget of
        None \<Rightarrow> new_object EmptyFrame
      | Some cba \<Rightarrow>
          bind_act (rows_at cash_rows cba) (\<lambda>cb0.
          if cb0 = [] then new_object EmptyFrame
          else
            (case purchases of
               None \<Rightarrow> new_object EmptyFrame
             | Some pa \<Rightarrow>
                 bind_act (rows_at purchases_rows pa) (\<lambda>p0.
                 if p0 = [] then new_object EmptyFrame
                 else
                   (case sales_data of
                      None \<Rightarrow> new_object EmptyFrame
                    | Some sa \<Rightarrow>
                        bind_act (rows_at sales_rows sa) (\<lambda>sd0.
                        if sd0 = [] then new_object EmptyFrame
                        else
                          bind_act (new_object EmptyFrame) (\<lambda>b.
                          bind_act (store_at b Unfinished) (\<lambda>_.
                          bind_act (rows_at cash_rows cba) (\<lambda>cb.
                          bind_act (store_at b Unfinished) (\<lambda>_.
                          bind_act (rows_at purchases_rows pa) (\<lambda>p.
                          bind_act (rows_at sales_rows sa) (\<lambda>sd.
                          bind_act (store_at b Unfinished) (\<lambda>_.
                          bind_act (rows_at sales_rows sa) (\<lambda>t0.
                          bind_act (for_rows_act (receivables_body_h st sa) (iterrows t0) [])
                            (\<lambda>receivables_list.
                          if length receivables_list \<noteq> length sd then try_err (Inl ValueError)
                          else
                            bind_act (store_at b Unfinished) (\<lambda>_.
                            bind_act (store_at b Unfinished) (\<lambda>_.
                            bind_act (try_err (getitem st ''external_financing_ratio'')) (\<lambda>ratio.
                            bind_act (store_at b Unfinished) (\<lambda>_.
                            bind_act (store_at b Unfinished) (\<lambda>_.
                            bind_act (store_at b (BalanceFrame
                                        (map (balance_row_at cb p sd receivables_list ratio)
                                           [0..<length sd]))) (\<lambda>_.
                            return_act b)))))))))))))))))))))"

subsection \<open>The stage sequence of save_all_reports\<close>

text \<open>The six calls of \<open>MainWindow.save_all_reports\<close> on the window's table, each stage
  handed the objects that earlier stages returned. \<open>read_reports\<close> reads the six tables
  off the store, and \<open>outcome\<close> is what a run produced: the exception, or the tables.\<close>

record report_refs =
  sales_data_ref :: ref
  collections_ref :: ref
  purchases_ref :: ref
  cash_budget_ref :: ref
  income_stmt_ref :: ref
  balance_sheet_ref :: ref

definition save_all_reports_stages :: "settings_dict \<Rightarrow> ref option \<Rightarrow> report_refs act" where
  "save_all_reports_stages st d =
     bind_act (compute_sales_revenue_h d) (\<lambda>sales_data.
     bind_act (compute_collections_h st (Some sales_data)) (\<lambda>collections_df.
     bind_act (compute_purchases_h st (Some sales_data)) (\<lambda>purchases.
     bind_act (compute_cash_budget_h st (Some collections_df) (Some purchases)) (\<lambda>cash_budget.
     bind_act (compute_income_statement_h (Some sales_data)) (\<lambda>income_stmt.
     bind_act (compute_balance_sheet_h st (Some cash_budget) (Some purchases) (Some sales_data))
       (\<lambda>balance_sheet.
     return_act \<lparr>sales_data_ref = sales_data, collections_ref = collections_df,
                 purchases_ref = purchases, cash_budget_ref = cash_budget,
                 income_stmt_ref = income_stmt, balance_sheet_ref = balance_sheet\<rparr>))))))"

definition view_at :: "(frame \<Rightarrow> 't option) \<Rightarrow> heap \<Rightarrow> ref \<Rightarrow> 't option" where
  "view_at view h a = (if a < length h then view (h ! a) else None)"

definition read_reports :: "heap \<Rightarrow> report_refs \<Rightarrow> reports option" where
  "read_reports h r =
     Option.bind (view_at sales_rows h (sales_data_ref r)) (\<lambda>sales_data.
     Option.bind (view_at collections_rows h (collections_ref r)) (\<lambda>collections_df.
     Option.bind (view_at purchases_rows h (purchases_ref r)) (\<lambda>purchases.
     Option.bind (view_at cash_rows h (cash_budget_ref r)) (\<lambda>cash_budget.
     Option.bind (view_at income_rows h (income_stmt_ref r)) (\<lambda>income_stmt.
     Option.bind (view_at balance_rows h (balance_sheet_ref r)) (\<lambda>balance_sheet.
     Some \<lparr>sales_data_out = sales_data, collections_out = collections_df,
            purchases_out = purchases, cash_budget_out = cash_budget,
            income_stmt_out = income_stmt, balance_sheet_out = balance_sheet\<rparr>))))))"

definition outcome :: "heap \<Rightarrow> py_error + report_refs \<Rightarrow> py_error + reports option" where
  "outcome h r = map_sum id (read_reports h) r"

section \<open>DataManager.get_sample_data\<close>

definition get_sample_data :: "period list" where
  "get_sample_data =
     [\<lparr>quarter = ''Q1'', sales_units = 10000, unit_price = 20\<rparr>,
      \<lparr>quarter = ''Q2'', sales_units = 12000, unit_price = 20\<rparr>,
      \<lparr>quarter = ''Q3'', sales_units = 15000, unit_price = 20\<rparr>,
      \<lparr>quarter = ''Q4'', sales_units = 13000, unit_price = 20\<rparr>]"

section \<open>SettingsManager\<close>

record SettingsManager =
  default_settings :: settings_dict
  settings :: settings_dict

definition SettingsManager_init :: SettingsManager where
  "SettingsManager_init =
     (let default_settings =
        [''sales_collection_current'' \<mapsto> 0.6,
         ''sales_collection_next'' \<mapsto> 0.4,
         ''purchases_payment_current'' \<mapsto> 0.5,
         ''purchases_payment_next'' \<mapsto> 0.5,
         ''ending_inventory_pct'' \<mapsto> 0.2,
         ''external_financing_ratio'' \<mapsto> 0.3,
         ''working_capital_turnover'' \<mapsto> 2.0,
         ''beginning_cash'' \<mapsto> 100000]
      in \<lparr>default_settings = default_settings, settings = default_settings\<rparr>)"

text \<open>\<open>self.settings.get(key, self.default_settings.get(key, 0.0))\<close>\<close>

definition get_setting :: "SettingsManager \<Rightarrow> string \<Rightarrow> real" where
  "get_setting self key =
     (case settings self key of
        Some v \<Rightarrow> v
      | None \<Rightarrow> (case default_settings self key of Some v \<Rightarrow> v | None \<Rightarrow> 0.0))"

definition get_all_settings :: "SettingsManager \<Rightarrow> settings_dict" where
  "get_all_settings self = settings self"

text \<open>
  The values \<open>set_setting\<close> may be handed, and the builtin \<open>float\<close> on them: \<open>None\<close> raises
  TypeError; an \<open>int\<close> converts unless it is too large for a double, which raises
  OverflowError (from \<open>2^1024 - 2^970\<close> on, where rounding leaves the double range);
  a \<open>str\<close> that is not a float literal raises ValueError. The literal grammar of
  \<open>float(str)\<close> belongs to the interpreter and is a parameter, \<open>parse\<close>.
\<close>

datatype pyval = PyNone | PyBool bool | PyInt int | PyFloat real | PyStr string

definition py_float :: "(string \<Rightarrow> real option) \<Rightarrow> pyval \<Rightarrow> py_error + real" where
  "py_float parse v =
     (case v of
        PyNone \<Rightarrow> Inl TypeError
      | PyBool b \<Rightarrow> Inr (if b then 1 else 0)
      | PyInt n \<Rightarrow> if \<bar>n\<bar> < 2 ^ 1024 - 2 ^ 970 then Inr (of_int n) else Inl OverflowError
      | PyFloat x \<Rightarrow> Inr x
      | PyStr s \<Rightarrow> (case parse s of None \<Rightarrow> Inl ValueError | Some x \<Rightarrow> Inr x))"

text \<open>
  \<open>set_setting\<close> returns the flag and the manager after the call. Its \<open>except\<close> clause
  catches ValueError and TypeError; any other exception leaves the method.
\<close>

definition set_setting ::
  "(string \<Rightarrow> real option) \<Rightarrow> SettingsManager \<Rightarrow> string \<Rightarrow> pyval
     \<Rightarrow> py_error + (bool \<times> SettingsManager)" where
  "set_setting parse self key v =
     (if default_settings self key \<noteq> None then
        (case py_float parse v of
           Inr x \<Rightarrow> Inr (True, self\<lparr>settings := (settings self)(key \<mapsto> x)\<rparr>)
         | Inl e \<Rightarrow> if e = ValueError \<or> e = TypeError then Inr (False, self) else Inl e)
      else Inr (False, self))"

section \<open>Loop invariants\<close>

text \<open>
  The value each loop has written into row \<open>i\<close> once it has passed that row. The
  invariants of the loops are stated with them; the theorems about the stages are not.
\<close>

definition collections_at :: "real \<Rightarrow> real \<Rightarrow> sales_row list \<Rightarrow> nat \<Rightarrow> real" where
  "collections_at cc cn sd i =
     sales_revenue (sd ! i) * cc + (if i > 0 then sales_revenue (sd ! (i - 1)) * cn else 0)"

definition dei_at :: "real \<Rightarrow> sales_row list \<Rightarrow> nat \<Rightarrow> real" where
  "dei_at pct sd i = (if i + 1 < length sd then sales_units (sd ! (i + 1)) * pct else 0)"

definition purchases_final :: "real \<Rightarrow> sales_row list \<Rightarrow> nat \<Rightarrow> purchases_row" where
  "purchases_final pct sd i =
     (let d = dei_at pct sd i;
          b = (if i > 0 then dei_at pct sd (i - 1) else 0);
          u = sales_units (sd ! i) + d - b
      in (add_purchases (sd ! i))
           \<lparr>desired_ending_inventory := d, beginning_inventory := b,
            purchases_units := u, purchases_cost := u * (unit_price (sd ! i) * 0.6)\<rparr>)"

definition disbursements_at :: "real \<Rightarrow> real \<Rightarrow> purchases_row list \<Rightarrow> nat \<Rightarrow> real" where
  "disbursements_at pc pn p i =
     purchases_cost (p ! i) * pc + (if i > 0 then purchases_cost (p ! (i - 1)) * pn else 0)"

fun ending_cash_at ::
  "real \<Rightarrow> real \<Rightarrow> real \<Rightarrow> collections_row list \<Rightarrow> purchases_row list \<Rightarrow> nat \<Rightarrow> real" where
  "ending_cash_at bc pc pn c p 0 = bc + collections (c ! 0) - disbursements_at pc pn p 0"
| "ending_cash_at bc pc pn c p (Suc i) =
     ending_cash_at bc pc pn c p i + collections (c ! Suc i) - disbursements_at pc pn p (Suc i)"

definition cash_final ::
  "real \<Rightarrow> real \<Rightarrow> real \<Rightarrow> collections_row list \<Rightarrow> purchases_row list \<Rightarrow> nat \<Rightarrow> cash_row" where
  "cash_final bc pc pn c p i =
     add_cash (c ! i) (disbursements_at pc pn p i) bc (ending_cash_at bc pc pn c p i)"

fun receivables_at :: "real \<Rightarrow> real \<Rightarrow> sales_row list \<Rightarrow> nat \<Rightarrow> real" where
  "receivables_at cc cn sd 0 = sales_revenue (sd ! 0) * (1 - cc)"
| "receivables_at cc cn sd (Suc i) =
     receivables_at cc cn sd i + sales_revenue (sd ! Suc i) * (1 - cc) - sales_revenue (sd ! i) * cn"

section \<open>Loop lemmas\<close>



lemma bind_err_Inr [simp]: "bind_err (Inr x) f = f x"
  by (simp add: bind_err_def)

lemma bind_err_Inl [simp]: "bind_err (Inl e) f = Inl e"
  by (simp add: bind_err_def)

lemma loc_in_range [simp]: "i < length t \<Longrightarrow> loc t i = Inr (t ! i)"
  by (simp add: loc_def)

lemma iloc_in_range [simp]: "i < length xs \<Longrightarrow> iloc xs i = Inr (xs ! i)"
  by (simp add: iloc_def)

lemma getitem_Some [simp]: "d k = Some v \<Longrightarrow> getitem d k = Inr v"
  by (simp add: getitem_def)

lemma for_rows_append:
  "for_rows body (xs @ ys) s = bind_err (for_rows body xs s) (for_rows body ys)"
proof (induction xs arbitrary: s)
  case Nil
  show ?case by simp
next
  case (Cons x xs)
  obtain i row where x: "x = (i, row)" by (cases x)
  show ?case
    by (cases "body i row s") (simp_all add: x Cons.IH)
qed

lemma iterrows_take_Suc:
  assumes "k < length t"
  shows "take (Suc k) (iterrows t) = take k (iterrows t) @ [(k, t ! k)]"
  using assms by (simp add: iterrows_def take_Suc_conv_app_nth)

lemma for_rows_invariant:
  assumes init: "P 0 s0"
    and step: "\<And>k s. k < length t \<Longrightarrow> P k s \<Longrightarrow> \<exists>s'. body k (t ! k) s = Inr s' \<and> P (Suc k) s'"
  shows "\<exists>s. for_rows body (iterrows t) s0 = Inr s \<and> P (length t) s"
proof -
  have "k \<le> length t \<Longrightarrow> \<exists>s. for_rows body (take k (iterrows t)) s0 = Inr s \<and> P k s" for k
  proof (induction k)
    case 0
    show ?case using init by simp
  next
    case (Suc k)
    then obtain s where s: "for_rows body (take k (iterrows t)) s0 = Inr s" "P k s"
      by auto
    from Suc.prems have k: "k < length t" by simp
    from step [OF k s(2)] obtain s' where s': "body k (t ! k) s = Inr s'" "P (Suc k) s'"
      by blast
    show ?case
      by (simp add: iterrows_take_Suc [OF k] for_rows_append s(1) s')
  qed
  from this [of "length t"] show ?thesis
    by (simp add: iterrows_def)
qed

lemma set_cell_length [simp]: "length (set_cell i f t) = length t"
  by (simp add: set_cell_def)

lemma set_cell_nth: "i < length t \<Longrightarrow> set_cell i f t ! j = (if j = i then f (t ! i) else t ! j)"
  by (simp add: set_cell_def)

lemma add_collections_sel [simp]:
  "sales_revenue (add_collections r v) = sales_revenue r"
  "collections (add_collections r v) = v"
  "(add_collections r v)\<lparr>collections := w\<rparr> = add_collections r w"
  by (simp_all add: add_collections_def)

lemma compute_collections_rows:
  assumes cc: "st ''sales_collection_current'' = Some cc"
    and cn: "st ''sales_collection_next'' = Some cn"
    and ne: "sd \<noteq> []"
  shows "\<exists>t. compute_collections st (Some sd) = Inr t \<and> length t = length sd \<and>
           (\<forall>j<length sd. t ! j = add_collections (sd ! j) (collections_at cc cn sd j))"
proof -
  define t0 where "t0 = map (\<lambda>r. add_collections r 0) sd"
  define P where "P = (\<lambda>k (s :: collections_row list). length s = length sd \<and>
     (\<forall>j<length sd. s ! j = add_collections (sd ! j) (if j < k then collections_at cc cn sd j else 0)))"
  have len: "length t0 = length sd" by (simp add: t0_def)
  have init: "P 0 t0" by (simp add: P_def t0_def)
  have step: "\<exists>s'. collections_body st k (t0 ! k) s = Inr s' \<and> P (Suc k) s'"
    if k: "k < length t0" and inv: "P k s" for k s
  proof -
    from k len have k': "k < length sd" by simp
    from inv have ls: "length s = length sd"
      and rows: "\<And>j. j < length sd \<Longrightarrow> s ! j = add_collections (sd ! j) (if j < k then collections_at cc cn sd j else 0)"
      by (simp_all add: P_def)
    have row: "t0 ! k = add_collections (sd ! k) 0" using k' by (simp add: t0_def)
    have sk: "s ! k = add_collections (sd ! k) 0" using rows [OF k'] by simp
    have sp: "sales_revenue (s ! (k - 1)) = sales_revenue (sd ! (k - 1))" if "k > 0"
      using rows [of "k - 1"] k' that by simp
    define s' where "s' = s[k := add_collections (sd ! k) (collections_at cc cn sd k)]"
    have run: "collections_body st k (t0 ! k) s = Inr s'"
      using k' ls cc cn sp
      by (simp add: collections_body_def row sk s'_def set_cell_def collections_at_def Let_def)
    have "P (Suc k) s'"
      unfolding P_def s'_def using ls rows
      by (simp add: nth_list_update less_Suc_eq)
    with run show ?thesis by blast
  qed
  from for_rows_invariant [of P t0 t0 "collections_body st", OF init step]
  obtain s where "for_rows (collections_body st) (iterrows t0) t0 = Inr s" "P (length t0) s"
    by blast
  then show ?thesis using ne
    by (simp add: compute_collections_def t0_def [symmetric] P_def len)
qed
lemma compute_purchases_rows:
  assumes pct: "st ''ending_inventory_pct'' = Some pct"
    and ne: "sd \<noteq> []"
  shows "\<exists>t. compute_purchases st (Some sd) = Inr t \<and> length t = length sd \<and>
           (\<forall>j<length sd. t ! j = purchases_final pct sd j)"
proof -
  define t0 where "t0 = map add_purchases sd"
  define cpu where "cpu = map (\<lambda>r. unit_price r * 0.6) t0"
  define P where "P = (\<lambda>k (s :: purchases_row list). length s = length sd \<and>
     (\<forall>j<length sd. s ! j = (if j < k then purchases_final pct sd j else add_purchases (sd ! j))))"
  have len: "length t0 = length sd" by (simp add: t0_def)
  have init: "P 0 t0" by (simp add: P_def t0_def)
  have step: "\<exists>s'. purchases_body st cpu k (t0 ! k) s = Inr s' \<and> P (Suc k) s'"
    if k: "k < length t0" and inv: "P k s" for k s
  proof -
    from k len have k': "k < length sd" by simp
    from inv have ls: "length s = length sd"
      and rows: "\<And>j. j < length sd \<Longrightarrow> s ! j = (if j < k then purchases_final pct sd j else add_purchases (sd ! j))"
      by (simp_all add: P_def)
    have row: "sales_units (t0 ! k) = sales_units (sd ! k)"
      using k' by (simp add: t0_def add_purchases_def)
    define q :: real where "q = 0.6"
    have c: "cpu ! k = unit_price (sd ! k) * q" "k < length cpu"
      using k' by (simp_all add: cpu_def t0_def add_purchases_def q_def)
    have fin: "purchases_final pct sd k =
      (add_purchases (sd ! k))
           \<lparr>desired_ending_inventory := dei_at pct sd k,
            beginning_inventory := (if k > 0 then dei_at pct sd (k - 1) else 0),
            purchases_units := sales_units (sd ! k) + dei_at pct sd k
               - (if k > 0 then dei_at pct sd (k - 1) else 0),
            purchases_cost := (sales_units (sd ! k) + dei_at pct sd k
               - (if k > 0 then dei_at pct sd (k - 1) else 0)) * (unit_price (sd ! k) * q)\<rparr>"
      by (simp add: purchases_final_def Let_def q_def)
    have sk: "s ! k = add_purchases (sd ! k)" using rows [OF k'] by simp
    have sn: "sales_units (s ! (k + 1)) = sales_units (sd ! (k + 1))" if "k + 1 < length sd"
      using rows [OF that] by (simp add: add_purchases_def)
    have sp: "desired_ending_inventory (s ! (k - 1)) = dei_at pct sd (k - 1)" if "k > 0"
      using rows [of "k - 1"] k' that by (simp add: purchases_final_def Let_def)
    define s' where "s' = s[k := purchases_final pct sd k]"
    have pos: "0 < length sd" using k' by (cases sd) simp_all
    have run: "purchases_body st cpu k (t0 ! k) s = Inr s'"
    proof (cases "k = 0")
      case True
      with k' pos ls pct sn c row sk fin show ?thesis
        by (simp add: purchases_body_def s'_def set_cell_def dei_at_def
            add_purchases_def Let_def)
    next
      case False
      with k' pos ls pct sn sp c row sk fin show ?thesis
        by (simp add: purchases_body_def s'_def set_cell_def dei_at_def
            add_purchases_def Let_def)
    qed
    have "P (Suc k) s'"
      unfolding P_def s'_def using ls rows
      by (simp add: nth_list_update less_Suc_eq)
    with run show ?thesis by blast
  qed
  from for_rows_invariant [of P t0 t0 "purchases_body st cpu", OF init step]
  obtain s where "for_rows (purchases_body st cpu) (iterrows t0) t0 = Inr s" "P (length t0) s"
    by blast
  moreover have "compute_purchases st (Some sd) = for_rows (purchases_body st cpu) (iterrows t0) t0"
    using ne unfolding compute_purchases_def cpu_def t0_def by (simp add: Let_def)
  ultimately show ?thesis
    by (simp add: P_def len)
qed
lemma add_cash_sel [simp]:
  "collections (add_cash r d b e) = collections r"
  "disbursements (add_cash r d b e) = d"
  "beginning_cash (add_cash r d b e) = b"
  "ending_cash (add_cash r d b e) = e"
  "(add_cash r d b e)\<lparr>disbursements := d'\<rparr> = add_cash r d' b e"
  "(add_cash r d b e)\<lparr>ending_cash := e'\<rparr> = add_cash r d b e'"
  by (simp_all add: add_cash_def)

lemma compute_cash_budget_rows:
  assumes bc: "st ''beginning_cash'' = Some bc"
    and pc: "st ''purchases_payment_current'' = Some pc"
    and pn: "st ''purchases_payment_next'' = Some pn"
    and ne: "c \<noteq> []"
    and lp: "length c \<le> length p"
  shows "\<exists>t. compute_cash_budget st (Some c) (Some p) = Inr t \<and> length t = length c \<and>
           (\<forall>j<length c. t ! j = cash_final bc pc pn c p j)"
proof -
  define t0 where "t0 = map (\<lambda>r. add_cash r 0 bc 0) c"
  define P where "P = (\<lambda>k (s :: cash_row list). length s = length c \<and>
     (\<forall>j<length c. s ! j = (if j < k then cash_final bc pc pn c p j else add_cash (c ! j) 0 bc 0)))"
  have len: "length t0 = length c" by (simp add: t0_def)
  have init: "P 0 t0" by (simp add: P_def t0_def)
  have step: "\<exists>s'. cash_body st p k (t0 ! k) s = Inr s' \<and> P (Suc k) s'"
    if k: "k < length t0" and inv: "P k s" for k s
  proof -
    from k len have k': "k < length c" by simp
    from inv have ls: "length s = length c"
      and rows: "\<And>j. j < length c \<Longrightarrow> s ! j = (if j < k then cash_final bc pc pn c p j else add_cash (c ! j) 0 bc 0)"
      by (simp_all add: P_def)
    have kp: "k < length p" using k' lp by simp
    have row: "t0 ! k = add_cash (c ! k) 0 bc 0" using k' by (simp add: t0_def)
    have sk: "s ! k = add_cash (c ! k) 0 bc 0" using rows [OF k'] by simp
    define s' where "s' = s[k := cash_final bc pc pn c p k]"
    have run: "cash_body st p k (t0 ! k) s = Inr s'"
    proof (cases k)
      case 0
      with k' kp ls bc pc pn row sk show ?thesis
        by (simp add: cash_body_def s'_def set_cell_def cash_final_def disbursements_at_def Let_def)
    next
      case (Suc m)
      have "s ! m = cash_final bc pc pn c p m" using rows [of m] k' Suc by simp
      then have sp: "ending_cash (s ! m) = ending_cash_at bc pc pn c p m"
        by (simp add: cash_final_def)
      from Suc k' kp ls bc pc pn row sk sp show ?thesis
        by (simp add: cash_body_def s'_def set_cell_def cash_final_def disbursements_at_def Let_def)
    qed
    have "P (Suc k) s'"
      unfolding P_def s'_def using ls rows
      by (simp add: nth_list_update less_Suc_eq)
    with run show ?thesis by blast
  qed
  from for_rows_invariant [of P t0 t0 "cash_body st p", OF init step]
  obtain s where "for_rows (cash_body st p) (iterrows t0) t0 = Inr s" "P (length t0) s"
    by blast
  moreover have "compute_cash_budget st (Some c) (Some p) = for_rows (cash_body st p) (iterrows t0) t0"
    using ne lp bc unfolding compute_cash_budget_def t0_def by (auto simp add: Let_def)
  ultimately show ?thesis
    by (simp add: P_def len)
qed

lemma receivables_loop:
  assumes cc: "st ''sales_collection_current'' = Some cc"
    and cn: "st ''sales_collection_next'' = Some cn"
  shows "for_rows (receivables_body st sd) (iterrows sd) [] = Inr (map (receivables_at cc cn sd) [0..<length sd])"
proof -
  define P where "P = (\<lambda>k (rs :: real list). rs = map (receivables_at cc cn sd) [0..<k])"
  have init: "P 0 []" by (simp add: P_def)
  have step: "\<exists>s'. receivables_body st sd k (sd ! k) s = Inr s' \<and> P (Suc k) s'"
    if k: "k < length sd" and inv: "P k s" for k s
  proof (cases k)
    case 0
    with inv cc show ?thesis
      by (simp add: receivables_body_def P_def)
  next
    case (Suc m)
    with inv k cc cn show ?thesis
      by (simp add: receivables_body_def P_def Let_def nth_append)
  qed
  from for_rows_invariant [of P "[]" sd "receivables_body st sd", OF init step]
  show ?thesis by (simp add: P_def)
qed

section \<open>The stages on the sample data\<close>

lemma sample_sales:
  "compute_sales_revenue (Some get_sample_data) =
     [\<lparr>quarter = ''Q1'', sales_units = 10000, unit_price = 20, sales_revenue = 200000\<rparr>,
      \<lparr>quarter = ''Q2'', sales_units = 12000, unit_price = 20, sales_revenue = 240000\<rparr>,
      \<lparr>quarter = ''Q3'', sales_units = 15000, unit_price = 20, sales_revenue = 300000\<rparr>,
      \<lparr>quarter = ''Q4'', sales_units = 13000, unit_price = 20, sales_revenue = 260000\<rparr>]"
  by (simp add: compute_sales_revenue_def get_sample_data_def add_sales_revenue_def)

lemma add_purchases_sel [simp]:
  "sales_units (add_purchases r) = sales_units r"
  "unit_price (add_purchases r) = unit_price r"
  by (simp_all add: add_purchases_def)

lemma purchases_final_sel:
  "sales_units (purchases_final pct sd i) = sales_units (sd ! i)"
  "unit_price (purchases_final pct sd i) = unit_price (sd ! i)"
  "desired_ending_inventory (purchases_final pct sd i) = dei_at pct sd i"
  "beginning_inventory (purchases_final pct sd i) = (if i > 0 then dei_at pct sd (i - 1) else 0)"
  "purchases_units (purchases_final pct sd i) =
     sales_units (sd ! i) + dei_at pct sd i - (if i > 0 then dei_at pct sd (i - 1) else 0)"
  "purchases_cost (purchases_final pct sd i) =
     (sales_units (sd ! i) + dei_at pct sd i - (if i > 0 then dei_at pct sd (i - 1) else 0))
       * (unit_price (sd ! i) * 0.6)"
  by (simp_all add: purchases_final_def Let_def)

lemma init_settings:
  "settings SettingsManager_init ''sales_collection_current'' = Some 0.6"
  "settings SettingsManager_init ''sales_collection_next'' = Some 0.4"
  "settings SettingsManager_init ''purchases_payment_current'' = Some 0.5"
  "settings SettingsManager_init ''purchases_payment_next'' = Some 0.5"
  "settings SettingsManager_init ''ending_inventory_pct'' = Some 0.2"
  "settings SettingsManager_init ''external_financing_ratio'' = Some 0.3"
  "settings SettingsManager_init ''working_capital_turnover'' = Some 2.0"
  "settings SettingsManager_init ''beginning_cash'' = Some 100000"
  by (simp_all add: SettingsManager_init_def Let_def)

lemma cash_final_sel:
  "disbursements (cash_final bc pc pn c p i) =
     purchases_cost (p ! i) * pc + (if i > 0 then purchases_cost (p ! (i - 1)) * pn else 0)"
  "ending_cash (cash_final bc pc pn c p 0) =
     bc + collections (c ! 0) - disbursements (cash_final bc pc pn c p 0)"
  "ending_cash (cash_final bc pc pn c p (Suc i)) =
     ending_cash (cash_final bc pc pn c p i) + collections (c ! Suc i)
       - disbursements (cash_final bc pc pn c p (Suc i))"
  by (simp_all add: cash_final_def disbursements_at_def)

lemma compute_balance_sheet_rows:
  assumes cc: "st ''sales_collection_current'' = Some cc"
    and cn: "st ''sales_collection_next'' = Some cn"
    and ratio: "st ''external_financing_ratio'' = Some ratio"
    and ne: "cb \<noteq> []" "p \<noteq> []" "sd \<noteq> []"
  shows "compute_balance_sheet st (Some cb) (Some p) (Some sd) =
           Inr (map (balance_row_at cb p sd (map (receivables_at cc cn sd) [0..<length sd]) ratio)
                  [0..<length sd])"
  using ne ratio
  by (simp add: compute_balance_sheet_def receivables_loop [of st cc cn sd, OF cc cn])

lemma balance_row_at_receivables:
  "receivables (balance_row_at cb p sd rs ratio i) = rs ! i"
  by (simp add: balance_row_at_def Let_def)


section \<open>The store model refines the stages\<close>

lemma bind_act_simps [simp]:
  "m h = None \<Longrightarrow> bind_act m f h = None"
  "m h = Some (Inl e, h') \<Longrightarrow> bind_act m f h = Some (Inl e, h')"
  "m h = Some (Inr x, h') \<Longrightarrow> bind_act m f h = f x h'"
  by (simp_all add: bind_act_def)

lemma collections_rows_simps [simp]:
  "collections_rows (CollectionsFrame t) = Some t"
  "collections_rows EmptyFrame = Some []"
  by (simp_all add: collections_rows_def frame_empty_def)

lemma rows_at_upd [simp]:
  "c < length h \<Longrightarrow> view (mk t) = Some t \<Longrightarrow> rows_at view c (h[c := mk t]) = Some (Inr t, h[c := mk t])"
  by (simp add: rows_at_def)

lemma loc_h_upd:
  "c < length h \<Longrightarrow> view (mk t) = Some t \<Longrightarrow> loc_h view c i (h[c := mk t]) = Some (loc t i, h[c := mk t])"
  by (simp add: loc_h_def try_err_def)

lemma set_cell_h_upd:
  "c < length h \<Longrightarrow> view (mk t) = Some t \<Longrightarrow>
   set_cell_h view mk c i f (h[c := mk t]) = Some (Inr (), h[c := mk (set_cell i f t)])"
  by (simp add: set_cell_h_def store_at_def)

lemma collections_body_h_ok:
  assumes "c < length h" and "collections_body st i row t = Inr t'"
  shows "collections_body_h st c i row () (h[c := CollectionsFrame t]) =
           Some (Inr (), h[c := CollectionsFrame t'])"
  using assms
  by (auto simp add: collections_body_h_def collections_body_def Let_def loc_h_upd set_cell_h_upd
      try_err_def return_act_def bind_err_def bind_act_def loc_def set_cell_def getitem_def
      split: sum.splits if_splits option.splits)

lemma collections_body_h_raise:
  assumes "c < length h" and "collections_body st i row t = Inl e"
  shows "\<exists>X. collections_body_h st c i row () (h[c := CollectionsFrame t]) =
           Some (Inl e, h[c := CollectionsFrame X])"
  using assms
  by (auto simp add: collections_body_h_def collections_body_def Let_def loc_h_upd set_cell_h_upd
      try_err_def return_act_def bind_err_def bind_act_def loc_def set_cell_def getitem_def
      split: sum.splits if_splits option.splits)

lemma for_rows_act_ok:
  assumes S: "\<And>i row t t'. body i row t = Inr t' \<Longrightarrow>
                body_h i row () (h[c := mk t]) = Some (Inr (), h[c := mk t'])"
  shows "for_rows body rows t = Inr t' \<Longrightarrow>
           for_rows_act body_h rows () (h[c := mk t]) = Some (Inr (), h[c := mk t'])"
proof (induction rows arbitrary: t)
  case Nil
  then show ?case by (simp add: return_act_def)
next
  case (Cons x rows)
  obtain i row where x: "x = (i, row)" by (cases x)
  from Cons.prems obtain t1 where t1: "body i row t = Inr t1" "for_rows body rows t1 = Inr t'"
    by (cases "body i row t") (simp_all add: x)
  show ?case
    by (simp add: x S [OF t1(1)] Cons.IH [OF t1(2)])
qed

lemma for_rows_act_raise:
  assumes S: "\<And>i row t t'. body i row t = Inr t' \<Longrightarrow>
                body_h i row () (h[c := mk t]) = Some (Inr (), h[c := mk t'])"
    and F: "\<And>i row t e. body i row t = Inl e \<Longrightarrow>
                \<exists>X. body_h i row () (h[c := mk t]) = Some (Inl e, h[c := mk X])"
  shows "for_rows body rows t = Inl e \<Longrightarrow>
           \<exists>X. for_rows_act body_h rows () (h[c := mk t]) = Some (Inl e, h[c := mk X])"
proof (induction rows arbitrary: t)
  case Nil
  then show ?case by simp
next
  case (Cons x rows)
  obtain i row where x: "x = (i, row)" by (cases x)
  show ?case
  proof (cases "body i row t")
    case (Inl e')
    with Cons.prems have "e' = e" by (simp add: x)
    with F [OF Inl] show ?thesis by (auto simp add: x)
  next
    case (Inr t1)
    with Cons.prems have "for_rows body rows t1 = Inl e" by (simp add: x)
    from Cons.IH [OF this] show ?thesis
      by (simp add: x S [OF Inr])
  qed
qed

lemma sales_rows_simps [simp]:
  "sales_rows (SalesFrame t) = Some t"
  "sales_rows EmptyFrame = Some []"
  by (simp_all add: sales_rows_def frame_empty_def)

lemma sales_rows_nonempty:
  "sales_rows f = Some sd \<Longrightarrow> sd \<noteq> [] \<Longrightarrow> f = SalesFrame sd"
  by (cases f) (simp_all add: sales_rows_def frame_empty_def split: if_splits)

lemma compute_collections_h_sim:
  assumes a: "a < length h" and v: "sales_rows (h ! a) = Some sd"
  shows "\<exists>X. compute_collections_h st (Some a) h =
              Some (map_sum id (\<lambda>_. length h) (compute_collections st (Some sd)), h @ [X]) \<and>
            (\<forall>t. compute_collections st (Some sd) = Inr t \<longrightarrow> collections_rows X = Some t)"
proof (cases "sd = []")
  case True
  then show ?thesis using a v
    by (simp add: compute_collections_h_def compute_collections_def rows_at_def new_object_def)
next
  case False
  define t0 where "t0 = map (\<lambda>r. add_collections r 0) sd"
  define h0 where "h0 = h @ [EmptyFrame]"
  have c: "length h < length h0" by (simp add: h0_def)
  have up: "h0[length h := CollectionsFrame t] = h @ [CollectionsFrame t]" for t
    by (simp add: h0_def)
  have pure: "compute_collections st (Some sd) = for_rows (collections_body st) (iterrows t0) t0"
    using False by (simp add: compute_collections_def t0_def Let_def)
  have start: "compute_collections_h st (Some a) h =
      bind_act (for_rows_act (collections_body_h st (length h)) (iterrows t0) ())
         (\<lambda>_. return_act (length h)) (h0[length h := CollectionsFrame t0])"
    using a v False
    by (simp add: compute_collections_h_def rows_at_def copy_object_def store_at_def
        nth_append up t0_def)
  show ?thesis
  proof (cases "for_rows (collections_body st) (iterrows t0) t0")
    case (Inr t)
    from for_rows_act_ok [of "collections_body st" "collections_body_h st (length h)" h0
        "length h" CollectionsFrame "iterrows t0" t0 t,
        OF collections_body_h_ok [OF c] Inr]
    show ?thesis
      by (simp add: start pure Inr up return_act_def)
  next
    case (Inl e)
    from for_rows_act_raise [of "collections_body st" "collections_body_h st (length h)" h0
        "length h" CollectionsFrame "iterrows t0" t0 e,
        OF collections_body_h_ok [OF c] collections_body_h_raise [OF c] Inl]
    obtain X where "for_rows_act (collections_body_h st (length h)) (iterrows t0) ()
        (h0[length h := CollectionsFrame t0]) = Some (Inl e, h0[length h := CollectionsFrame X])"
      by blast
    then show ?thesis
      by (simp add: start pure Inl up)
  qed
qed

lemma view_simps [simp]:
  "period_rows (PeriodFrame p) = Some p" "period_rows EmptyFrame = Some []"
  "purchases_rows (PurchasesFrame pu) = Some pu" "purchases_rows EmptyFrame = Some []"
  "cash_rows (CashFrame ca) = Some ca" "cash_rows EmptyFrame = Some []"
  "income_rows (IncomeFrame inc) = Some inc" "income_rows EmptyFrame = Some []"
  "balance_rows (BalanceFrame ba) = Some ba" "balance_rows EmptyFrame = Some []"
  by (simp_all add: period_rows_def purchases_rows_def cash_rows_def income_rows_def
      balance_rows_def frame_empty_def)

lemma compute_sales_revenue_h_sim:
  assumes a: "a < length h" and v: "period_rows (h ! a) = Some d"
  shows "\<exists>X. compute_sales_revenue_h (Some a) h = Some (Inr (length h), h @ [X]) \<and>
            sales_rows X = Some (compute_sales_revenue (Some d))"
  using a v
  by (cases "d = []")
    (simp_all add: compute_sales_revenue_h_def compute_sales_revenue_def rows_at_def
      new_object_def copy_object_def store_at_def return_act_def nth_append)

lemma purchases_body_h_ok:
  assumes "c < length h" and "purchases_body st cpu i row t = Inr t'"
  shows "purchases_body_h st cpu c i row () (h[c := PurchasesFrame t]) =
           Some (Inr (), h[c := PurchasesFrame t'])"
  using assms
  by (auto simp add: purchases_body_h_def purchases_body_def Let_def loc_h_upd set_cell_h_upd
      try_err_def return_act_def bind_err_def bind_act_def loc_def iloc_def set_cell_def getitem_def
      split: sum.splits if_splits option.splits)

lemma purchases_body_h_raise:
  assumes "c < length h" and "purchases_body st cpu i row t = Inl e"
  shows "\<exists>X. purchases_body_h st cpu c i row () (h[c := PurchasesFrame t]) =
           Some (Inl e, h[c := PurchasesFrame X])"
  using assms
  by (auto simp add: purchases_body_h_def purchases_body_def Let_def loc_h_upd set_cell_h_upd
      try_err_def return_act_def bind_err_def bind_act_def loc_def iloc_def set_cell_def getitem_def
      split: sum.splits if_splits option.splits)

lemma loc_h_other:
  "pa < length h \<Longrightarrow> pa \<noteq> c \<Longrightarrow> view (h ! pa) = Some p \<Longrightarrow>
   loc_h view pa i (h[c := x]) = Some (loc p i, h[c := x])"
  by (simp add: loc_h_def rows_at_def try_err_def)

lemma cash_body_h_ok:
  assumes "c < length h" and "pa < length h" and "pa \<noteq> c"
    and "purchases_rows (h ! pa) = Some p"
    and "cash_body st p i row t = Inr t'"
  shows "cash_body_h st pa c i row () (h[c := CashFrame t]) = Some (Inr (), h[c := CashFrame t'])"
  using assms
  by (auto simp add: cash_body_h_def cash_body_def Let_def loc_h_upd loc_h_other set_cell_h_upd
      try_err_def return_act_def bind_err_def bind_act_def loc_def set_cell_def getitem_def
      split: sum.splits if_splits option.splits)

lemma cash_body_h_raise:
  assumes "c < length h" and "pa < length h" and "pa \<noteq> c"
    and "purchases_rows (h ! pa) = Some p"
    and "cash_body st p i row t = Inl e"
  shows "\<exists>X. cash_body_h st pa c i row () (h[c := CashFrame t]) = Some (Inl e, h[c := CashFrame X])"
  using assms
  by (auto simp add: cash_body_h_def cash_body_def Let_def loc_h_upd loc_h_other set_cell_h_upd
      try_err_def return_act_def bind_err_def bind_act_def loc_def set_cell_def getitem_def
      split: sum.splits if_splits option.splits)

lemma compute_purchases_h_sim:
  assumes a: "a < length h" and v: "sales_rows (h ! a) = Some sd"
  shows "\<exists>X. compute_purchases_h st (Some a) h =
              Some (map_sum id (\<lambda>_. length h) (compute_purchases st (Some sd)), h @ [X]) \<and>
            (\<forall>t. compute_purchases st (Some sd) = Inr t \<longrightarrow> purchases_rows X = Some t)"
proof (cases "sd = []")
  case True
  then show ?thesis using a v
    by (simp add: compute_purchases_h_def compute_purchases_def rows_at_def new_object_def)
next
  case False
  define t0 where "t0 = map add_purchases sd"
  define cpu where "cpu = map (\<lambda>r. unit_price r * 0.6) t0"
  define h0 where "h0 = h @ [EmptyFrame]"
  have c: "length h < length h0" by (simp add: h0_def)
  have up: "h0[length h := x] = h @ [x]" for x
    by (simp add: h0_def)
  have pure: "compute_purchases st (Some sd) = for_rows (purchases_body st cpu) (iterrows t0) t0"
    using False by (simp add: compute_purchases_def t0_def cpu_def Let_def)
  have start: "compute_purchases_h st (Some a) h =
      bind_act (for_rows_act (purchases_body_h st cpu (length h)) (iterrows t0) ())
         (\<lambda>_. return_act (length h)) (h0[length h := PurchasesFrame t0])"
    using a v False unfolding cpu_def t0_def
    by (simp add: compute_purchases_h_def rows_at_def copy_object_def store_at_def
        nth_append up Let_def)
  show ?thesis
  proof (cases "for_rows (purchases_body st cpu) (iterrows t0) t0")
    case (Inr t)
    from for_rows_act_ok [of "purchases_body st cpu" "purchases_body_h st cpu (length h)" h0
        "length h" PurchasesFrame "iterrows t0" t0 t,
        OF purchases_body_h_ok [OF c] Inr]
    show ?thesis
      by (simp add: start pure Inr up return_act_def)
  next
    case (Inl e)
    from for_rows_act_raise [of "purchases_body st cpu" "purchases_body_h st cpu (length h)" h0
        "length h" PurchasesFrame "iterrows t0" t0 e,
        OF purchases_body_h_ok [OF c] purchases_body_h_raise [OF c] Inl]
    obtain X where "for_rows_act (purchases_body_h st cpu (length h)) (iterrows t0) ()
        (h0[length h := PurchasesFrame t0]) = Some (Inl e, h0[length h := PurchasesFrame X])"
      by blast
    then show ?thesis
      by (simp add: start pure Inl up)
  qed
qed

lemma compute_cash_budget_h_sim:
  assumes ca: "ca < length h" and vc: "collections_rows (h ! ca) = Some cl"
    and pa: "pa < length h" and vp: "purchases_rows (h ! pa) = Some p"
  shows "\<exists>X. compute_cash_budget_h st (Some ca) (Some pa) h =
              Some (map_sum id (\<lambda>_. length h) (compute_cash_budget st (Some cl) (Some p)), h @ [X]) \<and>
            (\<forall>t. compute_cash_budget st (Some cl) (Some p) = Inr t \<longrightarrow> cash_rows X = Some t)"
proof (cases "cl = [] \<or> p = []")
  case True
  then show ?thesis using ca vc pa vp
    by (auto simp add: compute_cash_budget_h_def compute_cash_budget_def rows_at_def new_object_def)
next
  case False
  then have ne: "cl \<noteq> []" "p \<noteq> []" by simp_all
  define h0 where "h0 = h @ [EmptyFrame]"
  have c: "length h < length h0" and pa0: "pa < length h0" and neq: "pa \<noteq> length h"
    and vp0: "purchases_rows (h0 ! pa) = Some p"
    using pa vp by (simp_all add: h0_def nth_append)
  have up: "h0[length h := x] = h @ [x]" for x
    by (simp add: h0_def)
  show ?thesis
  proof (cases "st ''beginning_cash''")
    case None
    then show ?thesis using ca vc pa vp ne
      by (simp add: compute_cash_budget_h_def compute_cash_budget_def rows_at_def
          copy_object_def store_at_def nth_append try_err_def getitem_def)
  next
    case (Some bc)
    define t0 where "t0 = map (\<lambda>r. add_cash r 0 bc 0) cl"
    have pure: "compute_cash_budget st (Some cl) (Some p) =
        for_rows (cash_body st p) (iterrows t0) t0"
      using ne Some by (simp add: compute_cash_budget_def t0_def Let_def)
    have start: "compute_cash_budget_h st (Some ca) (Some pa) h =
        bind_act (for_rows_act (cash_body_h st pa (length h)) (iterrows t0) ())
           (\<lambda>_. return_act (length h)) (h0[length h := CashFrame t0])"
      using ca vc pa vp ne Some unfolding t0_def
      by (simp add: compute_cash_budget_h_def rows_at_def copy_object_def store_at_def
          nth_append up try_err_def)
    show ?thesis
    proof (cases "for_rows (cash_body st p) (iterrows t0) t0")
      case (Inr t)
      from for_rows_act_ok [of "cash_body st p" "cash_body_h st pa (length h)" h0
          "length h" CashFrame "iterrows t0" t0 t,
          OF cash_body_h_ok [OF c pa0 neq vp0] Inr]
      show ?thesis
        by (simp add: start pure Inr up return_act_def)
    next
      case (Inl e)
      from for_rows_act_raise [of "cash_body st p" "cash_body_h st pa (length h)" h0
          "length h" CashFrame "iterrows t0" t0 e,
          OF cash_body_h_ok [OF c pa0 neq vp0] cash_body_h_raise [OF c pa0 neq vp0] Inl]
      obtain X where "for_rows_act (cash_body_h st pa (length h)) (iterrows t0) ()
          (h0[length h := CashFrame t0]) = Some (Inl e, h0[length h := CashFrame X])"
        by blast
      then show ?thesis
        by (simp add: start pure Inl up)
    qed
  qed
qed

lemma compute_income_statement_h_sim:
  assumes a: "a < length h" and v: "sales_rows (h ! a) = Some sd"
  shows "\<exists>X. compute_income_statement_h (Some a) h = Some (Inr (length h), h @ [X]) \<and>
            income_rows X = Some (compute_income_statement (Some sd))"
  using a v
  by (cases "sd = []")
    (simp_all add: compute_income_statement_h_def compute_income_statement_def rows_at_def
      new_object_def store_at_def return_act_def nth_append)

lemma for_rows_act_readonly:
  assumes "\<And>i row s. body_h i row s h = Some (body i row s, h)"
  shows "for_rows_act body_h rows s h = Some (for_rows body rows s, h)"
proof (induction rows arbitrary: s)
  case Nil
  show ?case by (simp add: return_act_def)
next
  case (Cons x rows)
  obtain i row where x: "x = (i, row)" by (cases x)
  show ?case
    by (cases "body i row s") (simp_all add: x assms Cons.IH)
qed

lemma receivables_body_h_readonly:
  assumes "sa < length h" and "sales_rows (h ! sa) = Some sd"
  shows "receivables_body_h st sa i row rl h = Some (receivables_body st sd i row rl, h)"
  using assms
  by (auto simp add: receivables_body_h_def receivables_body_def Let_def loc_h_def rows_at_def
      try_err_def return_act_def bind_err_def bind_act_def
      split: sum.splits if_splits option.splits)

lemma compute_balance_sheet_h_sim:
  assumes cba: "cba < length h" and vc: "cash_rows (h ! cba) = Some cb"
    and pa: "pa < length h" and vp: "purchases_rows (h ! pa) = Some p"
    and sa: "sa < length h" and vs: "sales_rows (h ! sa) = Some sd"
  shows "\<exists>X. compute_balance_sheet_h st (Some cba) (Some pa) (Some sa) h =
              Some (map_sum id (\<lambda>_. length h)
                      (compute_balance_sheet st (Some cb) (Some p) (Some sd)), h @ [X]) \<and>
            (\<forall>t. compute_balance_sheet st (Some cb) (Some p) (Some sd) = Inr t
                  \<longrightarrow> balance_rows X = Some t)"
proof (cases "cb = [] \<or> p = [] \<or> sd = []")
  case True
  then show ?thesis using assms
    by (auto simp add: compute_balance_sheet_h_def compute_balance_sheet_def rows_at_def
        new_object_def)
next
  case False
  then have ne: "cb \<noteq> []" "p \<noteq> []" "sd \<noteq> []" by simp_all
  define h1 where "h1 = h @ [Unfinished]"
  have sa1: "sa < length h1" "sales_rows (h1 ! sa) = Some sd"
    using sa vs by (simp_all add: h1_def nth_append)
  have loop: "for_rows_act (receivables_body_h st sa) (iterrows sd) [] h1 =
      Some (for_rows (receivables_body st sd) (iterrows sd) [], h1)"
    by (rule for_rows_act_readonly) (rule receivables_body_h_readonly [OF sa1])
  show ?thesis
  proof (cases "for_rows (receivables_body st sd) (iterrows sd) []")
    case (Inl e)
    then show ?thesis using assms ne loop
      by (simp add: compute_balance_sheet_h_def compute_balance_sheet_def rows_at_def
          new_object_def store_at_def nth_append h1_def)
  next
    case (Inr rl)
    then show ?thesis using assms ne loop
      by (cases "st ''external_financing_ratio''")
        (simp_all add: compute_balance_sheet_h_def compute_balance_sheet_def rows_at_def
          new_object_def store_at_def nth_append h1_def try_err_def getitem_def return_act_def)
  qed
qed

lemma save_all_reports_stages_sim:
  assumes a: "a < length h" and v: "period_rows (h ! a) = Some d"
  shows "\<exists>r g. save_all_reports_stages st (Some a) h = Some (r, h @ g) \<and>
           (\<forall>g'. outcome (h @ g @ g') r
                   = map_sum id Some (run_stages \<lparr>calc_settings = st\<rparr> (Some d)))"
proof -
  define sd where "sd = compute_sales_revenue (Some d)"
  define n where "n = length h"
  from compute_sales_revenue_h_sim [OF a v]
  obtain X1 where s1: "compute_sales_revenue_h (Some a) h = Some (Inr n, h @ [X1])"
    and v1: "sales_rows X1 = Some sd"
    unfolding sd_def n_def by blast
  have b1: "save_all_reports_stages st (Some a) h =
    bind_act (compute_collections_h st (Some n)) (\<lambda>collections_df.
     bind_act (compute_purchases_h st (Some n)) (\<lambda>purchases.
     bind_act (compute_cash_budget_h st (Some collections_df) (Some purchases)) (\<lambda>cash_budget.
     bind_act (compute_income_statement_h (Some n)) (\<lambda>income_stmt.
     bind_act (compute_balance_sheet_h st (Some cash_budget) (Some purchases) (Some n))
       (\<lambda>balance_sheet.
     return_act \<lparr>sales_data_ref = n, collections_ref = collections_df,
                 purchases_ref = purchases, cash_budget_ref = cash_budget,
                 income_stmt_ref = income_stmt, balance_sheet_ref = balance_sheet\<rparr>)))))
      (h @ [X1])"
    by (simp add: save_all_reports_stages_def s1)
  have pure: "run_stages \<lparr>calc_settings = st\<rparr> (Some d) =
      bind_err (compute_collections st (Some sd)) (\<lambda>collections_df.
      bind_err (compute_purchases st (Some sd)) (\<lambda>purchases.
      bind_err (compute_cash_budget st (Some collections_df) (Some purchases)) (\<lambda>cash_budget.
      bind_err (compute_balance_sheet st (Some cash_budget) (Some purchases) (Some sd))
        (\<lambda>balance_sheet.
      Inr \<lparr>sales_data_out = sd, collections_out = collections_df,
           purchases_out = purchases, cash_budget_out = cash_budget,
           income_stmt_out = compute_income_statement (Some sd),
           balance_sheet_out = balance_sheet\<rparr>))))"
    by (simp add: run_stages_def sd_def Let_def)
  have "n < length (h @ [X1])" "sales_rows ((h @ [X1]) ! n) = Some sd"
    by (simp_all add: n_def v1)
  from compute_collections_h_sim [OF this, of st]
  obtain X2 where s2: "compute_collections_h st (Some n) (h @ [X1]) =
       Some (map_sum id (\<lambda>_. (Suc n)) (compute_collections st (Some sd)), h @ [X1, X2])"
    and v2: "\<And>t. compute_collections st (Some sd) = Inr t \<Longrightarrow> collections_rows X2 = Some t"
    by (auto simp add: n_def)
  show ?thesis
  proof (cases "compute_collections st (Some sd)")
    case (Inl e)
    have "save_all_reports_stages st (Some a) h = Some (Inl e, h @ [X1, X2])"
      by (simp add: b1 s2 [unfolded Inl, simplified])
    moreover have "\<forall>g'. outcome (h @ [X1, X2] @ g') (Inl e)
        = map_sum id Some (run_stages \<lparr>calc_settings = st\<rparr> (Some d))"
      by (simp add: pure Inl outcome_def)
    ultimately show ?thesis by blast
  next
    case cl: (Inr cl)
    have "n < length (h @ [X1, X2])" "sales_rows ((h @ [X1, X2]) ! n) = Some sd"
      by (simp_all add: n_def v1 nth_append)
    from compute_purchases_h_sim [OF this, of st]
    obtain X3 where s3: "compute_purchases_h st (Some n) (h @ [X1, X2]) =
         Some (map_sum id (\<lambda>_. (Suc (Suc n))) (compute_purchases st (Some sd)), h @ [X1, X2, X3])"
      and v3: "\<And>t. compute_purchases st (Some sd) = Inr t \<Longrightarrow> purchases_rows X3 = Some t"
      by (auto simp add: n_def)
    show ?thesis
    proof (cases "compute_purchases st (Some sd)")
      case (Inl e)
      have "save_all_reports_stages st (Some a) h = Some (Inl e, h @ [X1, X2, X3])"
        by (simp add: b1 s2 [unfolded cl, simplified] s3 [unfolded Inl, simplified])
      moreover have "\<forall>g'. outcome (h @ [X1, X2, X3] @ g') (Inl e)
          = map_sum id Some (run_stages \<lparr>calc_settings = st\<rparr> (Some d))"
        by (simp add: pure cl Inl outcome_def)
      ultimately show ?thesis by blast
    next
      case pu: (Inr pu)
      have "(Suc n) < length (h @ [X1, X2, X3])"
        "collections_rows ((h @ [X1, X2, X3]) ! (Suc n)) = Some cl"
        "(Suc (Suc n)) < length (h @ [X1, X2, X3])"
        "purchases_rows ((h @ [X1, X2, X3]) ! (Suc (Suc n))) = Some pu"
        by (simp_all add: n_def v2 [OF cl] v3 [OF pu] nth_append)
      from compute_cash_budget_h_sim [OF this, of st]
      obtain X4 where s4: "compute_cash_budget_h st (Some (Suc n)) (Some (Suc (Suc n))) (h @ [X1, X2, X3]) =
           Some (map_sum id (\<lambda>_. (Suc (Suc (Suc n)))) (compute_cash_budget st (Some cl) (Some pu)),
                 h @ [X1, X2, X3, X4])"
        and v4: "\<And>t. compute_cash_budget st (Some cl) (Some pu) = Inr t \<Longrightarrow> cash_rows X4 = Some t"
        by (auto simp add: n_def)
      show ?thesis
      proof (cases "compute_cash_budget st (Some cl) (Some pu)")
        case (Inl e)
        have "save_all_reports_stages st (Some a) h = Some (Inl e, h @ [X1, X2, X3, X4])"
          by (simp add: b1 s2 [unfolded cl, simplified] s3 [unfolded pu, simplified] s4 [unfolded Inl, simplified])
        moreover have "\<forall>g'. outcome (h @ [X1, X2, X3, X4] @ g') (Inl e)
            = map_sum id Some (run_stages \<lparr>calc_settings = st\<rparr> (Some d))"
          by (simp add: pure cl pu Inl outcome_def)
        ultimately show ?thesis by blast
      next
        case cb: (Inr cb)
        have "n < length (h @ [X1, X2, X3, X4])"
          "sales_rows ((h @ [X1, X2, X3, X4]) ! n) = Some sd"
          by (simp_all add: n_def v1 nth_append)
        from compute_income_statement_h_sim [OF this]
        obtain X5 where s5: "compute_income_statement_h (Some n) (h @ [X1, X2, X3, X4]) =
             Some (Inr (Suc (Suc (Suc (Suc n)))), h @ [X1, X2, X3, X4, X5])"
          and v5: "income_rows X5 = Some (compute_income_statement (Some sd))"
          by (auto simp add: n_def)
        have "(Suc (Suc (Suc n))) < length (h @ [X1, X2, X3, X4, X5])"
          "cash_rows ((h @ [X1, X2, X3, X4, X5]) ! (Suc (Suc (Suc n)))) = Some cb"
          "(Suc (Suc n)) < length (h @ [X1, X2, X3, X4, X5])"
          "purchases_rows ((h @ [X1, X2, X3, X4, X5]) ! (Suc (Suc n))) = Some pu"
          "n < length (h @ [X1, X2, X3, X4, X5])"
          "sales_rows ((h @ [X1, X2, X3, X4, X5]) ! n) = Some sd"
          by (simp_all add: n_def v1 v3 [OF pu] v4 [OF cb] nth_append)
        from compute_balance_sheet_h_sim [OF this, of st]
        obtain X6 where s6: "compute_balance_sheet_h st (Some (Suc (Suc (Suc n)))) (Some (Suc (Suc n))) (Some n)
               (h @ [X1, X2, X3, X4, X5]) =
             Some (map_sum id (\<lambda>_. (Suc (Suc (Suc (Suc (Suc n)))))) (compute_balance_sheet st (Some cb) (Some pu) (Some sd)),
                   h @ [X1, X2, X3, X4, X5, X6])"
          and v6: "\<And>t. compute_balance_sheet st (Some cb) (Some pu) (Some sd) = Inr t
              \<Longrightarrow> balance_rows X6 = Some t"
          by (auto simp add: n_def)
        show ?thesis
        proof (cases "compute_balance_sheet st (Some cb) (Some pu) (Some sd)")
          case (Inl e)
          have "save_all_reports_stages st (Some a) h = Some (Inl e, h @ [X1, X2, X3, X4, X5, X6])"
            by (simp add: b1 s2 [unfolded cl, simplified] s3 [unfolded pu, simplified]
                s4 [unfolded cb, simplified] s5 s6 [unfolded Inl, simplified])
          moreover have "\<forall>g'. outcome (h @ [X1, X2, X3, X4, X5, X6] @ g') (Inl e)
              = map_sum id Some (run_stages \<lparr>calc_settings = st\<rparr> (Some d))"
            by (simp add: pure cl pu cb Inl outcome_def)
          ultimately show ?thesis by blast
        next
          case bs: (Inr bs)
          let ?refs = "\<lparr>sales_data_ref = n, collections_ref = (Suc n),
                 purchases_ref = (Suc (Suc n)), cash_budget_ref = (Suc (Suc (Suc n))),
                 income_stmt_ref = (Suc (Suc (Suc (Suc n)))), balance_sheet_ref = (Suc (Suc (Suc (Suc (Suc n)))))\<rparr>"
          have "save_all_reports_stages st (Some a) h
                  = Some (Inr ?refs, h @ [X1, X2, X3, X4, X5, X6])"
            by (simp add: b1 s2 [unfolded cl, simplified] s3 [unfolded pu, simplified]
                s4 [unfolded cb, simplified] s5 s6 [unfolded bs, simplified] return_act_def)
          moreover have "\<forall>g'. outcome (h @ [X1, X2, X3, X4, X5, X6] @ g') (Inr ?refs)
              = map_sum id Some (run_stages \<lparr>calc_settings = st\<rparr> (Some d))"
            by (simp add: pure cl pu cb bs outcome_def read_reports_def view_at_def n_def
                nth_append v1 v2 [OF cl] v3 [OF pu] v4 [OF cb] v5 v6 [OF bs])
          ultimately show ?thesis by blast
        qed
      qed
    qed
  qed
qed

lemma run_stages_ok:
  assumes cc: "st ''sales_collection_current'' = Some cc"
    and cn: "st ''sales_collection_next'' = Some cn"
    and pc: "st ''purchases_payment_current'' = Some pc"
    and pn: "st ''purchases_payment_next'' = Some pn"
    and pct: "st ''ending_inventory_pct'' = Some pct"
    and ratio: "st ''external_financing_ratio'' = Some ratio"
    and bc: "st ''beginning_cash'' = Some bc"
    and ne: "d \<noteq> []"
  shows "\<exists>reps. run_stages \<lparr>calc_settings = st\<rparr> (Some d) = Inr reps"
proof -
  define sd where "sd = compute_sales_revenue (Some d)"
  have sd: "sd \<noteq> []" using ne by (simp add: sd_def compute_sales_revenue_def)
  from compute_collections_rows [of st cc cn sd, OF cc cn sd]
  obtain cl where cl: "compute_collections st (Some sd) = Inr cl" "length cl = length sd"
    by blast
  from compute_purchases_rows [of st pct sd, OF pct sd]
  obtain pu where pu: "compute_purchases st (Some sd) = Inr pu" "length pu = length sd"
    by blast
  have cl_ne: "cl \<noteq> []" and pu_ne: "pu \<noteq> []" and le: "length cl \<le> length pu"
    using cl(2) pu(2) sd by auto
  from compute_cash_budget_rows [of st bc pc pn cl pu, OF bc pc pn cl_ne le]
  obtain cb where cb: "compute_cash_budget st (Some cl) (Some pu) = Inr cb" "length cb = length cl"
    by blast
  have cb_ne: "cb \<noteq> []" using cb(2) cl_ne by auto
  note bs = compute_balance_sheet_rows [of st cc cn ratio cb pu sd, OF cc cn ratio cb_ne pu_ne sd]
  show ?thesis
    by (simp add: run_stages_def sd_def [symmetric] cl(1) pu(1) cb(1) bs Let_def)
qed

section \<open>Claims\<close>

text \<open>
  C4. For a non-empty revenue table and settings that hold both collection ratios,
  \<open>compute_collections\<close> returns a table of the same length in which, for every
  period \<open>i\<close>, \<open>collections[i] = sales_revenue[i] * sales_collection_current\<close> plus, when
  \<open>i > 0\<close>, \<open>sales_revenue[i-1] * sales_collection_next\<close>. The instance below is the
  four-quarter sample with ratios 0.7 and 0.3: revenue 200000, 240000, 300000, 260000,
  \<open>collections[0] = 140000\<close> and \<open>collections[1] = 228000\<close>.
\<close>

theorem compute_collections_formula:
  assumes "st ''sales_collection_current'' = Some cc"
    and "st ''sales_collection_next'' = Some cn"
    and "sd \<noteq> []"
  shows "\<exists>t. compute_collections st (Some sd) = Inr t \<and> length t = length sd \<and>
           (\<forall>i<length sd.
              sales_revenue (t ! i) = sales_revenue (sd ! i) \<and>
              collections (t ! i) =
                sales_revenue (sd ! i) * cc
                  + (if i > 0 then sales_revenue (sd ! (i - 1)) * cn else 0))"
proof -
  from compute_collections_rows [OF assms]
  obtain t where t: "compute_collections st (Some sd) = Inr t" "length t = length sd"
    "\<forall>j<length sd. t ! j = add_collections (sd ! j) (collections_at cc cn sd j)"
    by blast
  then show ?thesis
    by (simp add: collections_at_def)
qed


theorem compute_collections_formula_witness:
  "\<exists>t. compute_collections
          [''sales_collection_current'' \<mapsto> 0.7, ''sales_collection_next'' \<mapsto> 0.3]
          (Some (compute_sales_revenue (Some get_sample_data))) = Inr t \<and>
        map sales_revenue (compute_sales_revenue (Some get_sample_data))
          = [200000, 240000, 300000, 260000] \<and>
        collections (t ! 0) = 140000 \<and> collections (t ! 1) = 228000"
proof -
  let ?st = "[''sales_collection_current'' \<mapsto> 0.7 :: real, ''sales_collection_next'' \<mapsto> 0.3]"
  let ?sd = "compute_sales_revenue (Some get_sample_data)"
  have "?st ''sales_collection_current'' = Some 0.7" "?st ''sales_collection_next'' = Some 0.3"
    "?sd \<noteq> []"
    by (simp_all add: sample_sales)
  from compute_collections_formula [OF this]
  obtain t where tt: "compute_collections ?st (Some ?sd) = Inr t \<and> length t = length ?sd \<and>
           (\<forall>i<length ?sd.
              sales_revenue (t ! i) = sales_revenue (?sd ! i) \<and>
              collections (t ! i) =
                sales_revenue (?sd ! i) * 0.7
                  + (if i > 0 then sales_revenue (?sd ! (i - 1)) * 0.3 else 0))" ..
  note t = tt [THEN conjunct1] and r = tt [THEN conjunct2, THEN conjunct2]
  have "collections (t ! 0) = 140000"
    using r [rule_format, of 0] by (simp add: sample_sales)
  moreover have "collections (t ! 1) = 228000"
    using r [rule_format, of 1] by (simp add: sample_sales)
  moreover have "map sales_revenue ?sd = [200000, 240000, 300000, 260000]"
    by (simp add: sample_sales)
  ultimately show ?thesis using t by (intro exI [of _ t] conjI)
qed

text \<open>
  C6. For a non-empty table and settings that hold \<open>ending_inventory_pct\<close>,
  \<open>compute_purchases\<close> returns a table of the same length with
  \<open>beginning_inventory[0] = 0\<close>, \<open>beginning_inventory[i] = desired_ending_inventory[i-1]\<close>
  for \<open>i > 0\<close>, \<open>purchases_units[i] = sales_units[i] + desired_ending_inventory[i] -
  beginning_inventory[i]\<close> and \<open>purchases_cost[i] = purchases_units[i] * (unit_price[i] * 0.6)\<close>
  for every period \<open>i\<close>.
\<close>

theorem compute_purchases_formula:
  assumes "st ''ending_inventory_pct'' = Some pct"
    and "sd \<noteq> []"
  shows "\<exists>t. compute_purchases st (Some sd) = Inr t \<and> length t = length sd \<and>
           beginning_inventory (t ! 0) = 0 \<and>
           (\<forall>i<length sd.
              (i > 0 \<longrightarrow> beginning_inventory (t ! i) = desired_ending_inventory (t ! (i - 1))) \<and>
              purchases_units (t ! i) =
                sales_units (sd ! i) + desired_ending_inventory (t ! i) - beginning_inventory (t ! i) \<and>
              purchases_cost (t ! i) = purchases_units (t ! i) * (unit_price (sd ! i) * 0.6))"
proof -
  from compute_purchases_rows [of st pct sd, OF assms]
  obtain t where t: "compute_purchases st (Some sd) = Inr t" "length t = length sd"
    and rows: "\<forall>j<length sd. t ! j = purchases_final pct sd j"
    by blast
  have pos: "0 < length sd" using assms(2) by simp
  have "beginning_inventory (t ! 0) = 0"
    using rows pos by (simp add: purchases_final_sel)
  moreover have "(i > 0 \<longrightarrow> beginning_inventory (t ! i) = desired_ending_inventory (t ! (i - 1))) \<and>
              purchases_units (t ! i) =
                sales_units (sd ! i) + desired_ending_inventory (t ! i) - beginning_inventory (t ! i) \<and>
              purchases_cost (t ! i) = purchases_units (t ! i) * (unit_price (sd ! i) * 0.6)"
    if "i < length sd" for i
  proof -
    have a: "t ! i = purchases_final pct sd i" using rows that by simp
    have b: "t ! (i - 1) = purchases_final pct sd (i - 1)" using rows that by simp
    show ?thesis unfolding a b by (simp only: purchases_final_sel) simp
  qed
  ultimately show ?thesis using t by simp
qed

theorem compute_purchases_formula_witness:
  "\<exists>t. compute_purchases (settings SettingsManager_init)
          (Some (compute_sales_revenue (Some get_sample_data))) = Inr t \<and>
        beginning_inventory (t ! 0) = 0 \<and>
        beginning_inventory (t ! 1) = desired_ending_inventory (t ! 0) \<and>
        purchases_units (t ! 1)
          = 12000 + desired_ending_inventory (t ! 1) - beginning_inventory (t ! 1) \<and>
        purchases_cost (t ! 1) = purchases_units (t ! 1) * (20 * 0.6)"
proof -
  let ?st = "settings SettingsManager_init"
  let ?sd = "compute_sales_revenue (Some get_sample_data)"
  have ne: "?sd \<noteq> []" by (simp add: sample_sales)
  from compute_purchases_formula [of ?st "0.2" ?sd, OF init_settings(5) ne]
  obtain t where tt: "compute_purchases ?st (Some ?sd) = Inr t \<and> length t = length ?sd \<and>
           beginning_inventory (t ! 0) = 0 \<and>
           (\<forall>i<length ?sd.
              (i > 0 \<longrightarrow> beginning_inventory (t ! i) = desired_ending_inventory (t ! (i - 1))) \<and>
              purchases_units (t ! i) =
                sales_units (?sd ! i) + desired_ending_inventory (t ! i) - beginning_inventory (t ! i) \<and>
              purchases_cost (t ! i) = purchases_units (t ! i) * (unit_price (?sd ! i) * 0.6))" ..
  note t = tt [THEN conjunct1] and b0 = tt [THEN conjunct2, THEN conjunct2, THEN conjunct1]
    and r = tt [THEN conjunct2, THEN conjunct2, THEN conjunct2, rule_format, of 1]
  have r1: "beginning_inventory (t ! 1) = desired_ending_inventory (t ! 0)"
    "purchases_units (t ! 1)
          = 12000 + desired_ending_inventory (t ! 1) - beginning_inventory (t ! 1)"
    "purchases_cost (t ! 1) = purchases_units (t ! 1) * (20 * 0.6)"
    using r by (simp_all add: sample_sales)
  show ?thesis
    using t b0 r1 by (intro exI [of _ t] conjI)
qed

text \<open>
  C3. On the four-quarter sample with the default settings (\<open>ending_inventory_pct = 0.2\<close>)
  \<open>compute_purchases\<close> gives the periods before the last 0.2 times the next period's
  units, and leaves the last period's \<open>desired_ending_inventory\<close> at the 0.0 the column
  was created with: the branch \<open>if i < len(purchases) - 1\<close> has no \<open>else\<close>. It is not
  \<open>0.2 * sales_units[last] = 2600\<close>.
\<close>

theorem compute_purchases_last_period:
  "\<exists>t. compute_purchases (settings SettingsManager_init)
          (Some (compute_sales_revenue (Some get_sample_data))) = Inr t \<and>
        length t = 4 \<and>
        desired_ending_inventory (t ! 0) = 2400 \<and>
        desired_ending_inventory (t ! 1) = 3000 \<and>
        desired_ending_inventory (t ! 2) = 2600 \<and>
        desired_ending_inventory (t ! 3) = 0 \<and>
        0.2 * sales_units (compute_sales_revenue (Some get_sample_data) ! 3) = 2600"
proof -
  let ?st = "settings SettingsManager_init"
  let ?sd = "compute_sales_revenue (Some get_sample_data)"
  have ne: "?sd \<noteq> []" by (simp add: sample_sales)
  from compute_purchases_rows [of ?st "0.2" ?sd, OF init_settings(5) ne]
  obtain t where tt: "compute_purchases ?st (Some ?sd) = Inr t \<and> length t = length ?sd \<and>
           (\<forall>j<length ?sd. t ! j = purchases_final 0.2 ?sd j)" ..
  note t = tt [THEN conjunct1] and l = tt [THEN conjunct2, THEN conjunct1]
    and r = tt [THEN conjunct2, THEN conjunct2, rule_format]
  have l4: "length t = 4" using l by (simp add: sample_sales)
  have d0: "desired_ending_inventory (t ! 0) = 2400"
    using r [of 0] by (simp add: sample_sales purchases_final_sel dei_at_def)
  have d1: "desired_ending_inventory (t ! 1) = 3000"
    using r [of 1] by (simp add: sample_sales purchases_final_sel dei_at_def)
  have d2: "desired_ending_inventory (t ! 2) = 2600"
    using r [of 2] by (simp add: sample_sales purchases_final_sel dei_at_def)
  have d3: "desired_ending_inventory (t ! 3) = 0"
    using r [of 3] by (simp add: sample_sales purchases_final_sel dei_at_def)
  have e: "0.2 * sales_units (?sd ! 3) = 2600"
    by (simp add: sample_sales)
  show ?thesis
    using t l4 d0 d1 d2 d3 e by (intro exI [of _ t] conjI)
qed

text \<open>
  C2. For a non-empty collections table, a purchases table with a row for each of its
  periods and settings that hold \<open>beginning_cash\<close> and both payment ratios,
  \<open>compute_cash_budget\<close> returns a table of the same length with
  \<open>disbursements[i] = purchases_cost[i] * purchases_payment_current\<close> plus, when \<open>i > 0\<close>,
  \<open>purchases_cost[i-1] * purchases_payment_next\<close>;
  \<open>ending_cash[0] = beginning_cash + collections[0] - disbursements[0]\<close>; and
  \<open>ending_cash[i] = ending_cash[i-1] + collections[i] - disbursements[i]\<close> for \<open>i > 0\<close>.
\<close>

theorem compute_cash_budget_recurrence:
  assumes "st ''beginning_cash'' = Some bc"
    and "st ''purchases_payment_current'' = Some pc"
    and "st ''purchases_payment_next'' = Some pn"
    and "c \<noteq> []"
    and "length c \<le> length p"
  shows "\<exists>t. compute_cash_budget st (Some c) (Some p) = Inr t \<and> length t = length c \<and>
           ending_cash (t ! 0) = bc + collections (c ! 0) - disbursements (t ! 0) \<and>
           (\<forall>i<length c.
              disbursements (t ! i) =
                purchases_cost (p ! i) * pc
                  + (if i > 0 then purchases_cost (p ! (i - 1)) * pn else 0) \<and>
              (i > 0 \<longrightarrow> ending_cash (t ! i) =
                 ending_cash (t ! (i - 1)) + collections (c ! i) - disbursements (t ! i)))"
proof -
  from compute_cash_budget_rows [of st bc pc pn c p, OF assms]
  obtain t where t: "compute_cash_budget st (Some c) (Some p) = Inr t" "length t = length c"
    and rows: "\<forall>j<length c. t ! j = cash_final bc pc pn c p j"
    by blast
  have pos: "0 < length c" using assms(4) by simp
  have "ending_cash (t ! 0) = bc + collections (c ! 0) - disbursements (t ! 0)"
    using rows pos by (simp add: cash_final_sel)
  moreover have "disbursements (t ! i) =
                purchases_cost (p ! i) * pc
                  + (if i > 0 then purchases_cost (p ! (i - 1)) * pn else 0) \<and>
              (i > 0 \<longrightarrow> ending_cash (t ! i) =
                 ending_cash (t ! (i - 1)) + collections (c ! i) - disbursements (t ! i))"
    if "i < length c" for i
  proof (cases i)
    case 0
    with rows that show ?thesis by (simp add: cash_final_sel)
  next
    case (Suc m)
    with rows that have "t ! Suc m = cash_final bc pc pn c p (Suc m)"
      "t ! m = cash_final bc pc pn c p m" by simp_all
    with Suc show ?thesis by (simp add: cash_final_sel)
  qed
  ultimately show ?thesis using t by simp
qed

theorem compute_cash_budget_recurrence_witness:
  "\<exists>t. compute_cash_budget (settings SettingsManager_init)
          (Some [\<lparr>quarter = ''Q1'', sales_units = 10000, unit_price = 20,
                   sales_revenue = 200000, collections = 120000\<rparr>,
                 \<lparr>quarter = ''Q2'', sales_units = 12000, unit_price = 20,
                   sales_revenue = 240000, collections = 224000\<rparr>])
          (Some [\<lparr>quarter = ''Q1'', sales_units = 10000, unit_price = 20,
                   sales_revenue = 200000, desired_ending_inventory = 2400,
                   beginning_inventory = 0, purchases_units = 12400, purchases_cost = 148800\<rparr>,
                 \<lparr>quarter = ''Q2'', sales_units = 12000, unit_price = 20,
                   sales_revenue = 240000, desired_ending_inventory = 0,
                   beginning_inventory = 2400, purchases_units = 9600, purchases_cost = 115200\<rparr>])
        = Inr t \<and>
        disbursements (t ! 0) = 74400 \<and> ending_cash (t ! 0) = 145600 \<and>
        disbursements (t ! 1) = 132000 \<and> ending_cash (t ! 1) = 237600"
proof -
  let ?st = "settings SettingsManager_init"
  let ?c = "[\<lparr>quarter = ''Q1'', sales_units = 10000, unit_price = 20,
                   sales_revenue = 200000, collections = 120000\<rparr>,
                 \<lparr>quarter = ''Q2'', sales_units = 12000, unit_price = 20,
                   sales_revenue = 240000, collections = 224000 :: real\<rparr>]"
  let ?p = "[\<lparr>quarter = ''Q1'', sales_units = 10000, unit_price = 20,
                   sales_revenue = 200000, desired_ending_inventory = 2400,
                   beginning_inventory = 0, purchases_units = 12400, purchases_cost = 148800\<rparr>,
                 \<lparr>quarter = ''Q2'', sales_units = 12000, unit_price = 20,
                   sales_revenue = 240000, desired_ending_inventory = 0,
                   beginning_inventory = 2400, purchases_units = 9600, purchases_cost = 115200 :: real\<rparr>]"
  have ne: "?c \<noteq> []" and le: "length ?c \<le> length ?p" by simp_all
  from compute_cash_budget_recurrence [of ?st 100000 "0.5" "0.5" ?c ?p,
      OF init_settings(8) init_settings(3) init_settings(4) ne le]
  obtain t where tt: "compute_cash_budget ?st (Some ?c) (Some ?p) = Inr t \<and> length t = length ?c \<and>
           ending_cash (t ! 0) = 100000 + collections (?c ! 0) - disbursements (t ! 0) \<and>
           (\<forall>i<length ?c.
              disbursements (t ! i) =
                purchases_cost (?p ! i) * 0.5
                  + (if i > 0 then purchases_cost (?p ! (i - 1)) * 0.5 else 0) \<and>
              (i > 0 \<longrightarrow> ending_cash (t ! i) =
                 ending_cash (t ! (i - 1)) + collections (?c ! i) - disbursements (t ! i)))" ..
  note t = tt [THEN conjunct1]
    and e0 = tt [THEN conjunct2, THEN conjunct2, THEN conjunct1]
    and r = tt [THEN conjunct2, THEN conjunct2, THEN conjunct2, rule_format]
  have d0: "disbursements (t ! 0) = 74400" using r [of 0] by simp
  have c0: "ending_cash (t ! 0) = 145600" using e0 d0 by simp
  have d1: "disbursements (t ! 1) = 132000" using r [of 1] by simp
  have c1: "ending_cash (t ! 1) = 237600" using r [of 1] d1 c0 by simp
  show ?thesis
    using t d0 c0 d1 c1 by (intro exI [of _ t] conjI)
qed

text \<open>
  C5. For non-empty inputs and settings that hold the two collection ratios and the
  financing ratio, the receivables column of \<open>compute_balance_sheet\<close> starts at
  \<open>sales_revenue[0] * (1 - sales_collection_current)\<close> and, for \<open>i > 0\<close>, is
  \<open>receivables[i-1] + sales_revenue[i] * (1 - sales_collection_current)
  - sales_revenue[i-1] * sales_collection_next\<close>.
\<close>

theorem receivables_recurrence:
  assumes "st ''sales_collection_current'' = Some cc"
    and "st ''sales_collection_next'' = Some cn"
    and "st ''external_financing_ratio'' = Some ratio"
    and "cb \<noteq> []" and "p \<noteq> []" and "sd \<noteq> []"
  shows "\<exists>bs. compute_balance_sheet st (Some cb) (Some p) (Some sd) = Inr bs \<and>
           length bs = length sd \<and>
           receivables (bs ! 0) = sales_revenue (sd ! 0) * (1 - cc) \<and>
           (\<forall>i<length sd. i > 0 \<longrightarrow>
              receivables (bs ! i) =
                receivables (bs ! (i - 1)) + sales_revenue (sd ! i) * (1 - cc)
                  - sales_revenue (sd ! (i - 1)) * cn)"
proof -
  let ?rs = "map (receivables_at cc cn sd) [0..<length sd]"
  let ?bs = "map (balance_row_at cb p sd ?rs ratio) [0..<length sd]"
  have run: "compute_balance_sheet st (Some cb) (Some p) (Some sd) = Inr ?bs"
    by (rule compute_balance_sheet_rows [of st cc cn ratio cb p sd, OF assms])
  have pos: "0 < length sd" using assms(6) by simp
  have r: "receivables (?bs ! i) = receivables_at cc cn sd i" if "i < length sd" for i
    using that by (simp add: balance_row_at_receivables)
  have first: "receivables (?bs ! 0) = sales_revenue (sd ! 0) * (1 - cc)"
    using r [OF pos] by simp
  have later: "receivables (?bs ! i) =
                receivables (?bs ! (i - 1)) + sales_revenue (sd ! i) * (1 - cc)
                  - sales_revenue (sd ! (i - 1)) * cn"
    if "i < length sd" "i > 0" for i
  proof -
    from that obtain m where m: "i = Suc m" by (cases i) simp_all
    with that have "m < length sd" by simp
    from r [OF this] r [OF that(1)] show ?thesis
      unfolding m by simp
  qed
  show ?thesis
    using run first later by (intro exI [of _ ?bs] conjI) simp_all
qed

theorem receivables_recurrence_witness:
  "\<exists>bs. compute_balance_sheet (settings SettingsManager_init)
          (Some [\<lparr>quarter = ''Q1'', sales_units = 10000, unit_price = 20,
                   sales_revenue = 200000, collections = 120000, disbursements = 74400,
                   beginning_cash = 100000, ending_cash = 145600\<rparr>])
          (Some [\<lparr>quarter = ''Q1'', sales_units = 10000, unit_price = 20,
                   sales_revenue = 200000, desired_ending_inventory = 2400,
                   beginning_inventory = 0, purchases_units = 12400, purchases_cost = 148800\<rparr>])
          (Some (compute_sales_revenue (Some get_sample_data))) = Inr bs \<and>
        receivables (bs ! 0) = 80000 \<and> receivables (bs ! 1) = 96000"
proof -
  let ?st = "settings SettingsManager_init"
  let ?cb = "[\<lparr>quarter = ''Q1'', sales_units = 10000, unit_price = 20,
                   sales_revenue = 200000, collections = 120000, disbursements = 74400,
                   beginning_cash = 100000, ending_cash = 145600 :: real\<rparr>]"
  let ?p = "[\<lparr>quarter = ''Q1'', sales_units = 10000, unit_price = 20,
                   sales_revenue = 200000, desired_ending_inventory = 2400,
                   beginning_inventory = 0, purchases_units = 12400, purchases_cost = 148800 :: real\<rparr>]"
  let ?sd = "compute_sales_revenue (Some get_sample_data)"
  have ne: "?cb \<noteq> []" "?p \<noteq> []" "?sd \<noteq> []" by (simp_all add: sample_sales)
  from receivables_recurrence [of ?st "0.6" "0.4" "0.3" ?cb ?p ?sd,
      OF init_settings(1) init_settings(2) init_settings(6) ne]
  obtain bs where tt: "compute_balance_sheet ?st (Some ?cb) (Some ?p) (Some ?sd) = Inr bs \<and>
           length bs = length ?sd \<and>
           receivables (bs ! 0) = sales_revenue (?sd ! 0) * (1 - 0.6) \<and>
           (\<forall>i<length ?sd. i > 0 \<longrightarrow>
              receivables (bs ! i) =
                receivables (bs ! (i - 1)) + sales_revenue (?sd ! i) * (1 - 0.6)
                  - sales_revenue (?sd ! (i - 1)) * 0.4)" ..
  note t = tt [THEN conjunct1]
    and f = tt [THEN conjunct2, THEN conjunct2, THEN conjunct1]
    and r = tt [THEN conjunct2, THEN conjunct2, THEN conjunct2, rule_format, of 1]
  have r0: "receivables (bs ! 0) = 80000" using f by (simp add: sample_sales)
  have r1: "receivables (bs ! 1) = 96000" using r r0 by (simp add: sample_sales)
  show ?thesis
    using t r0 r1 by (intro exI [of _ bs] conjI)
qed



text \<open>
  C7. Each of the six stages, given \<open>None\<close> or an empty table for any of its table
  arguments, returns the empty table and raises nothing; the settings are not read.
\<close>

theorem empty_input_returns_empty:
  "compute_sales_revenue None = [] \<and> compute_sales_revenue (Some []) = [] \<and>
   compute_collections st None = Inr [] \<and> compute_collections st (Some []) = Inr [] \<and>
   compute_purchases st None = Inr [] \<and> compute_purchases st (Some []) = Inr [] \<and>
   compute_cash_budget st None p = Inr [] \<and> compute_cash_budget st (Some []) p = Inr [] \<and>
   compute_cash_budget st c None = Inr [] \<and> compute_cash_budget st c (Some []) = Inr [] \<and>
   compute_income_statement None = [] \<and> compute_income_statement (Some []) = [] \<and>
   compute_balance_sheet st None p sd = Inr [] \<and>
   compute_balance_sheet st (Some []) p sd = Inr [] \<and>
   compute_balance_sheet st cb None sd = Inr [] \<and>
   compute_balance_sheet st cb (Some []) sd = Inr [] \<and>
   compute_balance_sheet st cb p None = Inr [] \<and>
   compute_balance_sheet st cb p (Some []) = Inr []"
  by (simp add: compute_sales_revenue_def compute_collections_def compute_purchases_def
      compute_cash_budget_def compute_income_statement_def compute_balance_sheet_def
      split: option.split)

text \<open>
  C8. On a manager whose defaults are those of \<open>__init__\<close> and whose settings mapping
  lacks the key, \<open>get_setting\<close> returns the default of that key: 0.6 and 0.4 for the
  collection ratios, 0.5 and 0.5 for the payment ratios, 0.2 for the ending inventory,
  0.3 for the financing ratio, 2.0 for the working-capital turnover, 100000 for the
  beginning cash (and 0.0 for a key that has no default).
\<close>

theorem get_setting_default:
  assumes "default_settings self = default_settings SettingsManager_init"
    and "settings self key = None"
  shows "get_setting self key =
     (if key = ''sales_collection_current'' then 0.6
      else if key = ''sales_collection_next'' then 0.4
      else if key = ''purchases_payment_current'' then 0.5
      else if key = ''purchases_payment_next'' then 0.5
      else if key = ''ending_inventory_pct'' then 0.2
      else if key = ''external_financing_ratio'' then 0.3
      else if key = ''working_capital_turnover'' then 2.0
      else if key = ''beginning_cash'' then 100000
      else 0)"
  using assms by (simp add: get_setting_def SettingsManager_init_def Let_def)

theorem get_setting_default_witness:
  "get_setting (SettingsManager_init\<lparr>settings := Map.empty\<rparr>) ''beginning_cash'' = 100000 \<and>
   get_setting (SettingsManager_init\<lparr>settings := Map.empty\<rparr>) ''ending_inventory_pct'' = 0.2"
  using get_setting_default [of "SettingsManager_init\<lparr>settings := Map.empty\<rparr>" "''beginning_cash''"]
    get_setting_default [of "SettingsManager_init\<lparr>settings := Map.empty\<rparr>" "''ending_inventory_pct''"]
  by simp

text \<open>
  C9. Take any store and a reference in it to a table of periods, and any settings.
  The stage sequence run on it, and run again on the store the first run leaves, both
  return. Neither run changes an object that was there before it, the input table
  included. Both produce the same outcome, the same exception or the same six tables,
  which is the outcome of the stage sequence as a function of the table and the settings
  alone; and the tables of the first run are still what they were after the second.
\<close>

theorem stage_sequence_deterministic:
  assumes "a < length h" and "h ! a = PeriodFrame d"
  shows "\<exists>r1 h1 r2 h2.
           save_all_reports_stages st (Some a) h = Some (r1, h1) \<and>
           save_all_reports_stages st (Some a) h1 = Some (r2, h2) \<and>
           take (length h) h1 = h \<and> take (length h1) h2 = h1 \<and>
           outcome h1 r1 = map_sum id Some (run_stages \<lparr>calc_settings = st\<rparr> (Some d)) \<and>
           outcome h2 r2 = outcome h1 r1 \<and>
           outcome h2 r1 = outcome h1 r1"
proof -
  have v: "period_rows (h ! a) = Some d" using assms(2) by simp
  from save_all_reports_stages_sim [OF assms(1) v, of st]
  obtain r1 g1 where run1: "save_all_reports_stages st (Some a) h = Some (r1, h @ g1)"
    and out1: "\<And>g'. outcome (h @ g1 @ g') r1
                   = map_sum id Some (run_stages \<lparr>calc_settings = st\<rparr> (Some d))"
    by blast
  have a1: "a < length (h @ g1)" and v1: "period_rows ((h @ g1) ! a) = Some d"
    using assms by (simp_all add: nth_append)
  from save_all_reports_stages_sim [OF a1 v1, of st]
  obtain r2 g2 where run2: "save_all_reports_stages st (Some a) (h @ g1) = Some (r2, (h @ g1) @ g2)"
    and out2: "\<And>g'. outcome ((h @ g1) @ g2 @ g') r2
                   = map_sum id Some (run_stages \<lparr>calc_settings = st\<rparr> (Some d))"
    by blast
  have o1: "outcome (h @ g1) r1 = map_sum id Some (run_stages \<lparr>calc_settings = st\<rparr> (Some d))"
    using out1 [of "[]"] by simp
  have o2: "outcome ((h @ g1) @ g2) r2 = map_sum id Some (run_stages \<lparr>calc_settings = st\<rparr> (Some d))"
    using out2 [of "[]"] by simp
  have o3: "outcome ((h @ g1) @ g2) r1 = map_sum id Some (run_stages \<lparr>calc_settings = st\<rparr> (Some d))"
    using out1 [of g2] by simp
  show ?thesis
    using run1 run2 o1 o2 o3
    by (intro exI [of _ r1] exI [of _ "h @ g1"] exI [of _ r2] exI [of _ "(h @ g1) @ g2"] conjI)
      simp_all
qed

theorem stage_sequence_deterministic_witness:
  "\<exists>r1 h1 r2 h2 reps.
     save_all_reports_stages (settings SettingsManager_init) (Some 0)
       [PeriodFrame get_sample_data] = Some (r1, h1) \<and>
     save_all_reports_stages (settings SettingsManager_init) (Some 0) h1 = Some (r2, h2) \<and>
     take 1 h1 = [PeriodFrame get_sample_data] \<and>
     outcome h1 r1 = Inr (Some reps) \<and>
     outcome h2 r2 = Inr (Some reps) \<and>
     outcome h2 r1 = Inr (Some reps)"
proof -
  let ?h = "[PeriodFrame get_sample_data]"
  let ?st = "settings SettingsManager_init"
  have a: "0 < length ?h" and d: "?h ! 0 = PeriodFrame get_sample_data" by simp_all
  have "get_sample_data \<noteq> []" by (simp add: get_sample_data_def)
  from run_stages_ok [of ?st, OF init_settings(1) init_settings(2) init_settings(3)
      init_settings(4) init_settings(5) init_settings(6) init_settings(8) this]
  obtain reps where reps: "run_stages \<lparr>calc_settings = ?st\<rparr> (Some get_sample_data) = Inr reps" ..
  from stage_sequence_deterministic [OF a d, of ?st]
  obtain r1 h1 r2 h2 where
    "save_all_reports_stages ?st (Some 0) ?h = Some (r1, h1)"
    "save_all_reports_stages ?st (Some 0) h1 = Some (r2, h2)"
    "take (length ?h) h1 = ?h"
    "outcome h1 r1 = map_sum id Some (run_stages \<lparr>calc_settings = ?st\<rparr> (Some get_sample_data))"
    "outcome h2 r2 = outcome h1 r1"
    "outcome h2 r1 = outcome h1 r1"
    by blast
  then show ?thesis
    by (intro exI [of _ r1] exI [of _ h1] exI [of _ r2] exI [of _ h2] exI [of _ reps] conjI)
      (simp_all add: reps)
qed

text \<open>
  C10, as amended. For a key outside the default set \<open>set_setting\<close> returns False and
  leaves the manager unchanged; for a key of the default set and a value that \<open>float\<close>
  converts it stores the converted value and returns True; and when \<open>float\<close> raises
  ValueError or TypeError it returns False and leaves the manager unchanged.
\<close>

theorem set_setting_result:
  "(default_settings self key = None \<longrightarrow> set_setting parse self key v = Inr (False, self)) \<and>
   (default_settings self key \<noteq> None \<longrightarrow>
      (\<forall>x. py_float parse v = Inr x \<longrightarrow>
         set_setting parse self key v
           = Inr (True, self\<lparr>settings := (settings self)(key \<mapsto> x)\<rparr>)) \<and>
      (py_float parse v = Inl ValueError \<or> py_float parse v = Inl TypeError \<longrightarrow>
         set_setting parse self key v = Inr (False, self)))"
  by (auto simp add: set_setting_def)

theorem set_setting_result_witness:
  "set_setting Map.empty SettingsManager_init ''discount_rate'' (PyFloat 0.1)
     = Inr (False, SettingsManager_init) \<and>
   set_setting Map.empty SettingsManager_init ''beginning_cash'' (PyInt 5000)
     = Inr (True, SettingsManager_init
             \<lparr>settings := (settings SettingsManager_init)(''beginning_cash'' \<mapsto> 5000)\<rparr>) \<and>
   set_setting Map.empty SettingsManager_init ''beginning_cash'' (PyStr ''abc'')
     = Inr (False, SettingsManager_init) \<and>
   set_setting Map.empty SettingsManager_init ''beginning_cash'' PyNone
     = Inr (False, SettingsManager_init)"
proof -
  have k1: "default_settings SettingsManager_init ''discount_rate'' = None"
    and k2: "default_settings SettingsManager_init ''beginning_cash'' \<noteq> None"
    by (simp_all add: SettingsManager_init_def Let_def)
  have f1: "py_float Map.empty (PyInt 5000) = Inr 5000"
    and f2: "py_float Map.empty (PyStr ''abc'') = Inl ValueError"
    and f3: "py_float Map.empty PyNone = Inl TypeError"
    by (simp_all add: py_float_def)
  note a = set_setting_result [of SettingsManager_init "''discount_rate''" Map.empty "PyFloat 0.1",
      THEN conjunct1, rule_format, OF k1]
  note b = set_setting_result [of SettingsManager_init "''beginning_cash''" Map.empty "PyInt 5000",
      THEN conjunct2, rule_format, OF k2, THEN conjunct1, rule_format, OF f1]
  note c = set_setting_result [of SettingsManager_init "''beginning_cash''" Map.empty "PyStr ''abc''",
      THEN conjunct2, rule_format, OF k2, THEN conjunct2, rule_format, OF disjI1, OF f2]
  note d = set_setting_result [of SettingsManager_init "''beginning_cash''" Map.empty PyNone,
      THEN conjunct2, rule_format, OF k2, THEN conjunct2, rule_format, OF disjI2, OF f3]
  show ?thesis using a b c d by (intro conjI)
qed

text \<open>
  C10, as stated, fails: the integer \<open>2^1024\<close> is not convertible, \<open>float\<close> raises
  OverflowError, which the \<open>except\<close> clause does not catch, and \<open>set_setting\<close> raises
  instead of returning False.
\<close>

theorem set_setting_overflow_counterexample:
  "py_float Map.empty (PyInt (2 ^ 1024)) = Inl OverflowError \<and>
   set_setting Map.empty SettingsManager_init ''beginning_cash'' (PyInt (2 ^ 1024))
     = Inl OverflowError \<and>
   set_setting Map.empty SettingsManager_init ''beginning_cash'' (PyInt (2 ^ 1024))
     \<noteq> Inr (False, SettingsManager_init)"
  by (simp add: set_setting_def py_float_def SettingsManager_init_def Let_def)

end
